theory Spec2Isabelle
  imports Complex_Main "HOL-Library.Word"
begin

section \<open>The simulator transport of python-rdma (rdma/sim.py)\<close>

text \<open>
  A shallow embedding of \<^verbatim>\<open>rdma/sim.py\<close>: the three \<^verbatim>\<open>struct.Struct\<close> codecs, the
  control call of \<^verbatim>\<open>SimConnection\<close>, the port object \<^verbatim>\<open>SimEndPort\<close> with its
  one-second port-info cache, and the datagram transactor \<^verbatim>\<open>SimUMAD\<close>.

  Python integers are \<open>int\<close>, byte strings are lists of 8-bit words, clock readings are
  \<open>real\<close> (seconds). Exceptions are values of the type \<open>error\<close>; a function that can raise
  returns \<open>error + 'a\<close> together with the state it leaves behind.
\<close>

subsection \<open>Bytes and the struct module\<close>

type_synonym byte = "8 word"
type_synonym bytes = "byte list"

datatype error =
    StructError           \<comment> \<open>\<^verbatim>\<open>struct.error\<close>: a value out of range for its format, or a buffer of the wrong size\<close>
  | ValueError            \<comment> \<open>\<^verbatim>\<open>tuple.index\<close> on a missing element, a byte outside 0..255\<close>
  | IndexError            \<comment> \<open>an index outside a sequence\<close>
  | RDMAError string      \<comment> \<open>\<^verbatim>\<open>rdma.RDMAError\<close> with its message\<close>
  | Blocks                \<comment> \<open>a blocking \<^verbatim>\<open>recv\<close> on the control socket that never returns\<close>

text \<open>The byte order of a format string: \<^verbatim>\<open>=\<close> is the order of the host, \<^verbatim>\<open>>\<close> is big-endian.\<close>

datatype byteorder = LittleEndian | BigEndian

fun le_bytes :: "nat \<Rightarrow> int \<Rightarrow> bytes" where
  "le_bytes 0 x = []"
| "le_bytes (Suc n) x = word_of_int x # le_bytes n (x div 256)"

fun le_int :: "bytes \<Rightarrow> int" where
  "le_int [] = 0"
| "le_int (b # bs) = uint b + 256 * le_int bs"

definition enc :: "byteorder \<Rightarrow> nat \<Rightarrow> int \<Rightarrow> bytes" where
  "enc order n x = (case order of LittleEndian \<Rightarrow> le_bytes n x | BigEndian \<Rightarrow> rev (le_bytes n x))"

definition dec :: "byteorder \<Rightarrow> bytes \<Rightarrow> int" where
  "dec order bs = (case order of LittleEndian \<Rightarrow> le_int bs | BigEndian \<Rightarrow> le_int (rev bs))"

text \<open>
  An unsigned format code of \<open>n\<close> bytes (\<^verbatim>\<open>B\<close>, \<^verbatim>\<open>H\<close>, \<^verbatim>\<open>L\<close>, \<^verbatim>\<open>Q\<close> are 1, 2, 4, 8 bytes in
  the standard sizes that \<^verbatim>\<open>=\<close> and \<^verbatim>\<open>>\<close> select) accepts \<open>0 \<le> x < 256 ^ n\<close> and raises
  \<^verbatim>\<open>struct.error\<close> otherwise.
\<close>

definition in_range :: "nat \<Rightarrow> int \<Rightarrow> bool" where
  "in_range n x \<longleftrightarrow> 0 \<le> x \<and> x < 256 ^ n"

text \<open>
  The format \<^verbatim>\<open>Ns\<close>: a string longer than the slot is cut to \<open>n\<close> bytes, a shorter one is
  filled up with null bytes.
\<close>

definition pack_s :: "nat \<Rightarrow> bytes \<Rightarrow> bytes" where
  "pack_s n s = take n s @ replicate (n - length s) 0"

text \<open>\<^verbatim>\<open>_struct_ctl = struct.Struct('=LLLL64s')\<close>, 80 bytes.\<close>

definition struct_ctl_size :: nat where
  "struct_ctl_size = 80"

definition struct_ctl_pack :: "byteorder \<Rightarrow> int \<Rightarrow> int \<Rightarrow> int \<Rightarrow> int \<Rightarrow> bytes \<Rightarrow> error + bytes" where
  "struct_ctl_pack host magic client_id type len data =
     (if in_range 4 magic \<and> in_range 4 client_id \<and> in_range 4 type \<and> in_range 4 len
      then Inr (enc host 4 magic @ enc host 4 client_id @ enc host 4 type @ enc host 4 len
                @ pack_s 64 data)
      else Inl StructError)"

definition struct_ctl_unpack :: "byteorder \<Rightarrow> bytes \<Rightarrow> error + (int \<times> int \<times> int \<times> int \<times> bytes)" where
  "struct_ctl_unpack host buf =
     (if length buf \<noteq> struct_ctl_size then Inl StructError
      else Inr (dec host (take 4 buf), dec host (take 4 (drop 4 buf)),
                dec host (take 4 (drop 8 buf)), dec host (take 4 (drop 12 buf)),
                drop 16 buf))"

text \<open>\<^verbatim>\<open>_struct_info = struct.Struct('=LLL32s')\<close>, 44 bytes.\<close>

definition struct_info_size :: nat where
  "struct_info_size = 44"

definition struct_info_pack :: "byteorder \<Rightarrow> int \<Rightarrow> int \<Rightarrow> int \<Rightarrow> bytes \<Rightarrow> error + bytes" where
  "struct_info_pack host client_id qp issm nodeid =
     (if in_range 4 client_id \<and> in_range 4 qp \<and> in_range 4 issm
      then Inr (enc host 4 client_id @ enc host 4 qp @ enc host 4 issm @ pack_s 32 nodeid)
      else Inl StructError)"

definition struct_info_unpack :: "byteorder \<Rightarrow> bytes \<Rightarrow> error + (int \<times> int \<times> int \<times> bytes)" where
  "struct_info_unpack host buf =
     (if length buf \<noteq> struct_info_size then Inl StructError
      else Inr (dec host (take 4 buf), dec host (take 4 (drop 4 buf)),
                dec host (take 4 (drop 8 buf)), drop 12 buf))"

text \<open>\<^verbatim>\<open>_struct_request = struct.Struct('>HHLLLQ 256s')\<close>, 280 bytes, big-endian on every host.\<close>

definition struct_request_size :: nat where
  "struct_request_size = 280"

definition struct_request_pack ::
  "int \<Rightarrow> int \<Rightarrow> int \<Rightarrow> int \<Rightarrow> int \<Rightarrow> int \<Rightarrow> bytes \<Rightarrow> error + bytes" where
  "struct_request_pack dlid slid dqpn sqpn status len pkt =
     (if in_range 2 dlid \<and> in_range 2 slid \<and> in_range 4 dqpn \<and> in_range 4 sqpn
         \<and> in_range 4 status \<and> in_range 8 len
      then Inr (enc BigEndian 2 dlid @ enc BigEndian 2 slid @ enc BigEndian 4 dqpn
                @ enc BigEndian 4 sqpn @ enc BigEndian 4 status @ enc BigEndian 8 len
                @ pack_s 256 pkt)
      else Inl StructError)"

definition struct_request_unpack ::
  "bytes \<Rightarrow> error + (int \<times> int \<times> int \<times> int \<times> int \<times> int \<times> bytes)" where
  "struct_request_unpack buf =
     (if length buf \<noteq> struct_request_size then Inl StructError
      else Inr (dec BigEndian (take 2 buf), dec BigEndian (take 2 (drop 2 buf)),
                dec BigEndian (take 4 (drop 4 buf)), dec BigEndian (take 4 (drop 8 buf)),
                dec BigEndian (take 4 (drop 12 buf)), dec BigEndian (take 8 (drop 16 buf)),
                drop 24 buf))"


text \<open>\<^verbatim>\<open>struct.pack('B', x)\<close>: one unsigned byte, in any byte order.\<close>

definition pack_B :: "int \<Rightarrow> error + bytes" where
  "pack_B x = (if in_range 1 x then Inr (enc BigEndian 1 x) else Inl StructError)"

subsection \<open>Constants\<close>

definition SIM_MAGIC :: int where "SIM_MAGIC = 0xdeadbeef"
definition SIM_CTL_ERROR :: int where "SIM_CTL_ERROR = 0"
definition SIM_CTL_CONNECT :: int where "SIM_CTL_CONNECT = 1"
definition SIM_CTL_DISCONNECT :: int where "SIM_CTL_DISCONNECT = 2"
definition SIM_CTL_GET_PORT :: int where "SIM_CTL_GET_PORT = 3"
definition SIM_CTL_GET_VENDOR :: int where "SIM_CTL_GET_VENDOR = 4"
definition SIM_CTL_GET_GID :: int where "SIM_CTL_GET_GID = 5"
definition SIM_CTL_GET_GUID :: int where "SIM_CTL_GET_GUID = 6"
definition SIM_CTL_GET_NODEINFO :: int where "SIM_CTL_GET_NODEINFO = 7"
definition SIM_CTL_GET_PORTINFO :: int where "SIM_CTL_GET_PORTINFO = 8"
definition SIM_CTL_SET_ISSM :: int where "SIM_CTL_SET_ISSM = 9"
definition SIM_CTL_GET_PKEYS :: int where "SIM_CTL_GET_PKEYS = 10"

text \<open>
  Constants of \<^verbatim>\<open>rdma.IBA\<close>, which is not part of this file. Modelled from the spec: the
  full-membership and the partial-membership default partition key, the well-known queue
  key of QP1, the link-local default GID prefix and the node type of a switch, with the
  values the InfiniBand architecture gives them.
\<close>

definition PKEY_DEFAULT :: int where "PKEY_DEFAULT = 0xFFFF"
definition PKEY_PARTIAL_DEFAULT :: int where "PKEY_PARTIAL_DEFAULT = 0x7FFF"
definition IB_DEFAULT_QP1_QKEY :: int where "IB_DEFAULT_QP1_QKEY = 0x80010000"
definition GID_DEFAULT_PREFIX :: int where "GID_DEFAULT_PREFIX = 0xFE80000000000000"
definition NODE_SWITCH :: int where "NODE_SWITCH = 2"

subsection \<open>Objects of the modules this file uses\<close>

text \<open>
  The attributes of \<^verbatim>\<open>IBA.SMPPortInfo\<close> that \<^verbatim>\<open>SimEndPort\<close> reads by name; the object is a
  value for each of them.
\<close>

datatype field = LID | LMC | portState | portPhysicalState | linkWidthActive
  | linkSpeedActive | capabilityMask | masterSMLID | masterSMSL | GIDPrefix

type_synonym SMPPortInfo = "field \<Rightarrow> int"

type_synonym GUID = "64 word"
type_synonym GID = bytes

record SMPNodeInfo =
  nodeType :: int
  numPorts :: int
  nodeGUID :: GUID
  systemImageGUID :: GUID
  deviceID :: int
  revision :: int

text \<open>
  \<^verbatim>\<open>rdma.path.IBPath\<close>. The attributes are the ones this file reads or writes. \<open>DQPN\<close> and
  \<open>SQPN\<close> are the attributes that \<^verbatim>\<open>recvfrom\<close> assigns; they are distinct from \<open>dqpn\<close> and
  \<open>sqpn\<close>, which \<^verbatim>\<open>sendto\<close> reads and \<^verbatim>\<open>sa_path\<close> sets, and are absent (\<open>None\<close>) on a path
  nobody assigned them on. \<open>end_port\<close> is the port id of the port the path belongs to.
\<close>

record IBPath =
  end_port :: int
  DLID :: int
  SLID :: int
  SL :: int
  dqpn :: int
  sqpn :: int
  qkey :: int
  path_pkey_index :: int
  packet_life_time :: int
  retries :: int
  mad_timeout :: real
  DQPN :: "int option"
  SQPN :: "int option"

text \<open>The classification tags of \<^verbatim>\<open>rdma.madtransactor\<close> and a call of the trace hook.\<close>

datatype trace_kind = TRACE_SEND | TRACE_COMPLETE | TRACE_UNEXPECTED | TRACE_RECEIVE | TRACE_REPLY

record trace_call =
  kind :: trace_kind
  trace_path :: IBPath
  trace_ret :: "bytes \<times> IBPath"

text \<open>
  What the code takes from modules outside this file: the constructor and the decoder of
  \<^verbatim>\<open>IBA.SMPPortInfo\<close>, the decoder of \<^verbatim>\<open>IBA.SMPNodeInfo\<close>, the attribute defaults of a new
  \<^verbatim>\<open>IBPath\<close>, and the two match-key functions of \<^verbatim>\<open>MADTransactor\<close>.
\<close>

record 'k lib =
  SMPPortInfo_new :: SMPPortInfo
  SMPPortInfo_unpack_from :: "bytes \<Rightarrow> SMPPortInfo"
  SMPNodeInfo_unpack_from :: "bytes \<Rightarrow> SMPNodeInfo"
  IBPath_new :: IBPath
  get_reply_match_key :: "bytes \<Rightarrow> 'k"
  get_match_key :: "bytes \<Rightarrow> 'k"

text \<open>
  Modelled from the spec: \<^verbatim>\<open>IBA.GUID.pack_into\<close>, \<^verbatim>\<open>IBA.GID(prefix, guid=...)\<close> and
  \<^verbatim>\<open>rdma.devices._conv_gid2guid\<close> are missing. A GUID is eight bytes in network order, a GID
  is the eight bytes of the prefix followed by the eight bytes of the interface identifier,
  and the GUID of a GID is its interface identifier.
\<close>

definition GUID_bytes :: "GUID \<Rightarrow> bytes" where
  "GUID_bytes g = enc BigEndian 8 (uint g)"

definition pack_into :: "GUID \<Rightarrow> bytes \<Rightarrow> bytes" where
  "pack_into g buf = GUID_bytes g @ drop 8 buf"

definition mkGID :: "int \<Rightarrow> bytes \<Rightarrow> GID" where
  "mkGID prefix guid = enc BigEndian 8 prefix @ guid"

definition interface_id :: "GID \<Rightarrow> bytes" where
  "interface_id gid = drop 8 gid"

definition conv_gid2guid :: "GID \<Rightarrow> GUID" where
  "conv_gid2guid gid = word_of_int (dec BigEndian (interface_id gid))"

subsection \<open>The environment\<close>

record SimConnection =
  client_id :: int

text \<open>
  Everything outside the process, and the module's global \<^verbatim>\<open>conn\<close>. A clock is the sequence
  of its readings and the number of readings taken so far. A socket is what was sent on it
  and what its receive calls deliver: \<open>ctl_inbox w n\<close> is the datagram that the \<open>n\<close>-th
  \<^verbatim>\<open>recv\<close> on the control socket returns (\<open>None\<close>: no datagram ever arrives and the call
  blocks); \<open>pkt_inbox w n\<close> is the outcome of the \<open>n\<close>-th \<^verbatim>\<open>poll\<close> of the data socket
  (\<open>None\<close>: nothing readable within the timeout; \<open>Some d\<close>: readable, and the \<^verbatim>\<open>recv\<close> that
  follows returns the datagram \<open>d\<close>). \<open>trace_log\<close> lists the calls of the trace hook. Sends
  on the sockets succeed.
\<close>

record world =
  host_order :: byteorder
  conn :: SimConnection
  time_time :: "nat \<Rightarrow> real"
  time_calls :: nat
  clock_monotonic :: "nat \<Rightarrow> real"
  clock_calls :: nat
  ctl_inbox :: "nat \<Rightarrow> bytes option"
  ctl_recvs :: nat
  ctl_sent :: "bytes list"
  pkt_inbox :: "nat \<Rightarrow> bytes option"
  pkt_polls :: nat
  pkt_sent :: "bytes list"
  trace_log :: "trace_call list"

text \<open>Running \<open>f\<close> on the value of a computation that did not raise.\<close>

definition andthen ::
  "(error + 'a) \<times> 's \<Rightarrow> ('a \<Rightarrow> 's \<Rightarrow> (error + 'b) \<times> 's) \<Rightarrow> (error + 'b) \<times> 's" where
  "andthen r f = (case r of (Inl e, s) \<Rightarrow> (Inl e, s) | (Inr a, s) \<Rightarrow> f a s)"

subsection \<open>SimConnection\<close>

text \<open>
  \<^verbatim>\<open>SimConnection._ctl\<close>: pack the envelope, send it, receive at most 80 bytes of the next
  datagram on the control socket and unpack them.
\<close>

definition ctl ::
  "int \<Rightarrow> bytes option \<Rightarrow> world \<Rightarrow> (error + (int \<times> int \<times> int \<times> int \<times> bytes)) \<times> world" where
  "ctl type data w =
     (let data = (case data of None \<Rightarrow> [] | Some d \<Rightarrow> d) in
      case struct_ctl_pack (host_order w) SIM_MAGIC (client_id (conn w)) type
             (int (length data)) data of
        Inl e \<Rightarrow> (Inl e, w)
      | Inr msg \<Rightarrow>
          (let w1 = w\<lparr>ctl_sent := ctl_sent w @ [msg]\<rparr> in
           case ctl_inbox w1 (ctl_recvs w1) of
             None \<Rightarrow> (Inl Blocks, w1)
           | Some d \<Rightarrow>
               (struct_ctl_unpack (host_order w1) (take struct_ctl_size d),
                w1\<lparr>ctl_recvs := Suc (ctl_recvs w1)\<rparr>)))"

text \<open>
  \<^verbatim>\<open>SimConnection.__del__\<close>: one control call. When the interpreter runs it, and what it
  does with an exception raised in it, is not part of this file.
\<close>

definition SimConnection_del :: "world \<Rightarrow> (error + (int \<times> int \<times> int \<times> int \<times> bytes)) \<times> world" where
  "SimConnection_del w = ctl SIM_CTL_DISCONNECT None w"

text \<open>The payload \<^verbatim>\<open>resp[4]\<close> of a decoded control envelope.\<close>

definition payload :: "int \<times> int \<times> int \<times> int \<times> bytes \<Rightarrow> bytes" where
  "payload resp = snd (snd (snd (snd resp)))"

subsection \<open>SimDevice\<close>

text \<open>
  The device holds its ports and every port holds its device; here the device record is
  the device without the port list, and \<open>end_ports\<close> builds the list.
\<close>

record SimDevice =
  name :: string
  node_info :: SMPNodeInfo
  fw_ver :: int
  node_desc :: string

record SimEndPort =
  parent :: SimDevice
  port_id :: int
  port_info :: SMPPortInfo         \<comment> \<open>\<^verbatim>\<open>_port_info\<close>\<close>
  port_info_age :: real            \<comment> \<open>\<^verbatim>\<open>_port_info_age\<close>\<close>
  pkeys :: "int list"
  gids_attr :: "GID list option"   \<comment> \<open>\<^verbatim>\<open>_gids\<close>\<close>
  cached_sa_path :: "IBPath option"       \<comment> \<open>\<^verbatim>\<open>_cached_sa_path\<close>, \<open>None\<close> while the attribute is absent\<close>
  cached_subnet_timeout :: "int option"   \<comment> \<open>\<^verbatim>\<open>_cached_subnet_timeout\<close>, likewise\<close>

text \<open>\<^verbatim>\<open>SimEndPort.__init__\<close>\<close>

definition SimEndPort_init :: "'k lib \<Rightarrow> SimDevice \<Rightarrow> int \<Rightarrow> SimEndPort" where
  "SimEndPort_init L dev i =
     \<lparr>parent = dev, port_id = i, port_info = SMPPortInfo_new L, port_info_age = 0,
      pkeys = [0xFFFF], gids_attr = None, cached_sa_path = None,
      cached_subnet_timeout = None\<rparr>"

text \<open>\<^verbatim>\<open>SimDevice.__init__\<close>: one control call, then the ports.\<close>

definition SimDevice_init :: "'k lib \<Rightarrow> string \<Rightarrow> world \<Rightarrow> (error + SimDevice) \<times> world" where
  "SimDevice_init L nm w =
     andthen (ctl SIM_CTL_GET_NODEINFO None w)
       (\<lambda>info w1. (Inr \<lparr>name = nm, node_info = SMPNodeInfo_unpack_from L (payload info),
                         fw_ver = 0, node_desc = []\<rparr>, w1))"

definition end_ports :: "'k lib \<Rightarrow> SimDevice \<Rightarrow> (int \<times> SimEndPort) list" where
  "end_ports L dev =
     (let (begin, end) = (if nodeType (node_info dev) = NODE_SWITCH then (0, 1)
                          else (1, numPorts (node_info dev) + 1))
      in map (\<lambda>i. (i, SimEndPort_init L dev i)) [begin..end - 1])"

definition node_guid :: "SimDevice \<Rightarrow> GUID" where
  "node_guid dev = nodeGUID (node_info dev)"

subsection \<open>SimEndPort\<close>

text \<open>
  \<^verbatim>\<open>SimEndPort._get\<close>. The state is the port and the world; the port is returned as the call
  leaves it, also when the call raises.
\<close>

definition get :: "'k lib \<Rightarrow> field \<Rightarrow> SimEndPort \<times> world \<Rightarrow> (error + int) \<times> SimEndPort \<times> world" where
  "get L f s =
     (case s of (p, w) \<Rightarrow>
        let now = time_time w (time_calls w);
            w0 = w\<lparr>time_calls := Suc (time_calls w)\<rparr>
        in if now > port_info_age p + 1
           then (case pack_B (port_id p) of
                   Inl e \<Rightarrow> (Inl e, p, w0)
                 | Inr data \<Rightarrow>
                     (case ctl SIM_CTL_GET_PORTINFO (Some data) w0 of
                        (Inl e, w1) \<Rightarrow> (Inl e, p, w1)
                      | (Inr info, w1) \<Rightarrow>
                          (let p1 = p\<lparr>port_info := SMPPortInfo_unpack_from L (payload info),
                                      port_info_age := now\<rparr>
                           in (Inr (port_info p1 f), p1, w1))))
           else (Inr (port_info p f), p, w0))"

definition lid :: "'k lib \<Rightarrow> SimEndPort \<times> world \<Rightarrow> (error + int) \<times> SimEndPort \<times> world" where
  "lid L = get L LID"

definition lmc :: "'k lib \<Rightarrow> SimEndPort \<times> world \<Rightarrow> (error + int) \<times> SimEndPort \<times> world" where
  "lmc L = get L LMC"

definition state :: "'k lib \<Rightarrow> SimEndPort \<times> world \<Rightarrow> (error + int) \<times> SimEndPort \<times> world" where
  "state L = get L portState"

definition phys_state :: "'k lib \<Rightarrow> SimEndPort \<times> world \<Rightarrow> (error + int) \<times> SimEndPort \<times> world" where
  "phys_state L = get L portPhysicalState"

definition widths :: "int \<rightharpoonup> string" where
  "widths = [1 \<mapsto> ''1X'', 2 \<mapsto> ''4X'', 4 \<mapsto> ''8X'', 8 \<mapsto> ''12X'']"

definition speeds :: "int \<rightharpoonup> string" where
  "speeds = [1 \<mapsto> ''2.5 Gb/sec'', 2 \<mapsto> ''5 Gb/sec'', 4 \<mapsto> ''10 Gb/sec'']"

definition dict_get :: "('a \<rightharpoonup> 'b) \<Rightarrow> 'a \<Rightarrow> 'b \<Rightarrow> 'b" where
  "dict_get d k dflt = (case d k of None \<Rightarrow> dflt | Some v \<Rightarrow> v)"

definition rate :: "'k lib \<Rightarrow> SimEndPort \<times> world \<Rightarrow> (error + string) \<times> SimEndPort \<times> world" where
  "rate L s =
     andthen (get L linkWidthActive s) (\<lambda>wd s1.
     andthen (get L linkSpeedActive s1) (\<lambda>sp s2.
       (Inr (dict_get widths wd ''??'' @ '' ('' @ dict_get speeds sp ''??'' @ '')''), s2)))"

definition cap_mask :: "'k lib \<Rightarrow> SimEndPort \<times> world \<Rightarrow> (error + int) \<times> SimEndPort \<times> world" where
  "cap_mask L = get L capabilityMask"

definition sm_lid :: "'k lib \<Rightarrow> SimEndPort \<times> world \<Rightarrow> (error + int) \<times> SimEndPort \<times> world" where
  "sm_lid L = get L masterSMLID"

definition sm_sl :: "'k lib \<Rightarrow> SimEndPort \<times> world \<Rightarrow> (error + int) \<times> SimEndPort \<times> world" where
  "sm_sl L = get L masterSMSL"

text \<open>\<^verbatim>\<open>guid[i] = v\<close> on a bytearray.\<close>

definition bytearray_set :: "bytes \<Rightarrow> nat \<Rightarrow> int \<Rightarrow> error + bytes" where
  "bytearray_set b i v =
     (if length b \<le> i then Inl IndexError
      else if in_range 1 v then Inr (b[i := word_of_int v])
      else Inl ValueError)"

text \<open>\<^verbatim>\<open>SimEndPort.gids\<close>\<close>

definition gids :: "'k lib \<Rightarrow> SimEndPort \<times> world \<Rightarrow> (error + GID list) \<times> SimEndPort \<times> world" where
  "gids L s =
     (case gids_attr (fst s) of
        Some g \<Rightarrow> (Inr g, s)
      | None \<Rightarrow>
          andthen (get L GIDPrefix s) (\<lambda>prefix (p, w).
            case bytearray_set (pack_into (node_guid (parent p)) (replicate 8 0)) 7 (port_id p) of
              Inl e \<Rightarrow> (Inl e, p, w)
            | Inr guid \<Rightarrow>
                (let default_gid = mkGID GID_DEFAULT_PREFIX guid;
                     g = (if prefix = GID_DEFAULT_PREFIX then [default_gid]
                          else [mkGID prefix guid, default_gid])
                 in (Inr g, p\<lparr>gids_attr := Some g\<rparr>, w))))"

text \<open>\<^verbatim>\<open>t[0]\<close> on a tuple.\<close>

definition first :: "'a list \<Rightarrow> error + 'a" where
  "first xs = (case xs of [] \<Rightarrow> Inl IndexError | x # _ \<Rightarrow> Inr x)"

definition default_gid :: "'k lib \<Rightarrow> SimEndPort \<times> world \<Rightarrow> (error + GID) \<times> SimEndPort \<times> world" where
  "default_gid L s = andthen (gids L s) (\<lambda>g s1. (first g, s1))"

definition port_guid :: "'k lib \<Rightarrow> SimEndPort \<times> world \<Rightarrow> (error + GUID) \<times> SimEndPort \<times> world" where
  "port_guid L s =
     andthen (gids L s) (\<lambda>g s1.
       case first g of Inl e \<Rightarrow> (Inl e, s1) | Inr g0 \<Rightarrow> (Inr (conv_gid2guid g0), s1))"

definition subnet_timeout :: "SimEndPort \<Rightarrow> int" where
  "subnet_timeout p = (case cached_subnet_timeout p of Some t \<Rightarrow> t | None \<Rightarrow> 18)"

text \<open>\<^verbatim>\<open>tuple.index\<close>: the first position of the value, \<^verbatim>\<open>ValueError\<close> if there is none.\<close>

fun tuple_index :: "int list \<Rightarrow> int \<Rightarrow> error + int" where
  "tuple_index [] x = Inl ValueError"
| "tuple_index (y # ys) x =
     (if y = x then Inr 0
      else case tuple_index ys x of Inl e \<Rightarrow> Inl e | Inr i \<Rightarrow> Inr (i + 1))"

definition pkey_index :: "SimEndPort \<Rightarrow> int \<Rightarrow> error + int" where
  "pkey_index p pkey = tuple_index (pkeys p) pkey"

text \<open>
  \<^verbatim>\<open>SimEndPort.sa_path\<close>. The two nested \<^verbatim>\<open>try\<close> blocks catch \<^verbatim>\<open>ValueError\<close> only. The
  keyword arguments of \<^verbatim>\<open>IBPath(...)\<close> are evaluated in the order they are written.
\<close>

definition find_sa_pkey :: "SimEndPort \<Rightarrow> error + int" where
  "find_sa_pkey p =
     (case pkey_index p PKEY_DEFAULT of
        Inr i \<Rightarrow> Inr i
      | Inl ValueError \<Rightarrow>
          (case pkey_index p PKEY_PARTIAL_DEFAULT of
             Inr i \<Rightarrow> Inr i
           | Inl ValueError \<Rightarrow> Inl (RDMAError ''Could not find the SA default PKey'')
           | Inl e \<Rightarrow> Inl e)
      | Inl e \<Rightarrow> Inl e)"

definition sa_path :: "'k lib \<Rightarrow> SimEndPort \<times> world \<Rightarrow> (error + IBPath) \<times> SimEndPort \<times> world" where
  "sa_path L s =
     (case cached_sa_path (fst s) of
        Some path \<Rightarrow> (Inr path, s)
      | None \<Rightarrow>
          (case find_sa_pkey (fst s) of
             Inl e \<Rightarrow> (Inl e, s)
           | Inr pkey_idx \<Rightarrow>
               andthen (sm_lid L s) (\<lambda>dl s1.
               andthen (lid L s1) (\<lambda>sl s2.
               andthen (sm_sl L s2) (\<lambda>svl (p, w).
                 let path = (IBPath_new L)\<lparr>end_port := port_id p, DLID := dl, SLID := sl,
                              SL := svl, dqpn := 1, sqpn := 1, qkey := IB_DEFAULT_QP1_QKEY,
                              path_pkey_index := pkey_idx,
                              packet_life_time := subnet_timeout p\<rparr>
                 in (Inr path, p\<lparr>cached_sa_path := Some path\<rparr>, w))))))"

subsection \<open>SimUMAD\<close>

text \<open>
  The transactor. \<open>umad_end_port\<close> is the port id of \<^verbatim>\<open>self.end_port\<close> (the same object as
  \<^verbatim>\<open>self.parent\<close>); \<open>trace_func\<close> says whether a trace hook is installed
  (\<^verbatim>\<open>self.trace_func is not None\<close>). Calling the hook appends the call to \<open>trace_log\<close>.
\<close>

record SimUMAD =
  umad_end_port :: int
  tid :: int               \<comment> \<open>\<^verbatim>\<open>_tid\<close>\<close>
  trace_func :: bool

text \<open>\<^verbatim>\<open>SimUMAD.__init__\<close>; \<open>seed\<close> is the value of the four random bytes.\<close>

definition SimUMAD_init :: "SimEndPort \<Rightarrow> int \<Rightarrow> SimUMAD" where
  "SimUMAD_init port seed = \<lparr>umad_end_port = port_id port, tid = seed, trace_func = False\<rparr>"

definition get_new_TID :: "SimUMAD \<Rightarrow> int \<times> SimUMAD" where
  "get_new_TID u = (let t = (tid u + 1) mod 2 ^ 32 in (t, u\<lparr>tid := t\<rparr>))"

text \<open>\<^verbatim>\<open>SimUMAD.sendto\<close>\<close>

definition sendto :: "bytes \<Rightarrow> IBPath \<Rightarrow> SimUMAD \<times> world \<Rightarrow> (error + unit) \<times> SimUMAD \<times> world" where
  "sendto buf path s =
     (case s of (u, w) \<Rightarrow>
        case struct_request_pack (DLID path) (SLID path) (dqpn path) (sqpn path) 0
               (int (length buf)) buf of
          Inl e \<Rightarrow> (Inl e, u, w)
        | Inr req \<Rightarrow> (Inr (), u, w\<lparr>pkt_sent := pkt_sent w @ [req]\<rparr>))"

text \<open>
  \<^verbatim>\<open>SimUMAD.recvfrom\<close>. The poll is only called when the timeout is positive; \<^verbatim>\<open>recv(512)\<close>
  returns at most 512 bytes of the datagram.
\<close>

definition recvfrom ::
  "'k lib \<Rightarrow> real \<Rightarrow> SimUMAD \<times> world \<Rightarrow> (error + (bytes \<times> IBPath) option) \<times> SimUMAD \<times> world" where
  "recvfrom L wakeat s =
     (case s of (u, w) \<Rightarrow>
        let timeout = wakeat - clock_monotonic w (clock_calls w);
            w0 = w\<lparr>clock_calls := Suc (clock_calls w)\<rparr>
        in if timeout \<le> 0 then (Inr None, u, w0)
           else (case pkt_inbox w0 (pkt_polls w0) of
                   None \<Rightarrow> (Inr None, u, w0\<lparr>pkt_polls := Suc (pkt_polls w0)\<rparr>)
                 | Some d \<Rightarrow>
                     (let w1 = w0\<lparr>pkt_polls := Suc (pkt_polls w0)\<rparr> in
                      case struct_request_unpack (take 512 d) of
                        Inl e \<Rightarrow> (Inl e, u, w1)
                      | Inr (dlid, slid, dqp, sqp, status, len, pkt) \<Rightarrow>
                          (let path = (IBPath_new L)\<lparr>end_port := umad_end_port u,
                                        DLID := dlid, SLID := slid,
                                        DQPN := Some dqp, SQPN := Some sqp\<rparr>
                           in (Inr (Some (pkt, path)), u, w1)))))"

text \<open>
  \<^verbatim>\<open>SimUMAD._execute\<close>. \<open>execute_step\<close> is one pass through the body of the \<^verbatim>\<open>while True\<close>
  loop: it returns, or it goes round again with a deadline and a retry budget (\<open>remaining\<close> is
  the local variable \<^verbatim>\<open>retries\<close>). The inner
  call \<^verbatim>\<open>self._execute(buf, path, True)\<close> is the send-only branch, that is \<open>sendto\<close>.
\<close>

datatype ('r, 's) loop = Return 'r 's | Continue real int 's

definition execute_step ::
  "'k lib \<Rightarrow> bytes \<Rightarrow> IBPath \<Rightarrow> 'k \<Rightarrow> real \<Rightarrow> int \<Rightarrow> SimUMAD \<times> world
     \<Rightarrow> (error + (bytes \<times> IBPath) option, SimUMAD \<times> world) loop" where
  "execute_step L buf path rmatch expire remaining s =
     (case recvfrom L expire s of
        (Inl e, s1) \<Rightarrow> Return (Inl e) s1
      | (Inr None, s1) \<Rightarrow>
          if remaining = 0 then Return (Inr None) s1
          else (case sendto buf path s1 of
                  (Inl e, s2) \<Rightarrow> Return (Inl e) s2
                | (Inr _, (u, w)) \<Rightarrow>
                    Continue (mad_timeout path + clock_monotonic w (clock_calls w))
                      (remaining - 1) (u, w\<lparr>clock_calls := Suc (clock_calls w)\<rparr>))
      | (Inr (Some ret), (u, w)) \<Rightarrow>
          if rmatch = get_match_key L (fst ret) then Return (Inr (Some ret)) (u, w)
          else if trace_func u
          then Continue expire remaining
                 (u, w\<lparr>trace_log := trace_log w
                        @ [\<lparr>kind = TRACE_UNEXPECTED, trace_path = path, trace_ret = ret\<rparr>]\<rparr>)
          else Continue expire remaining (u, w))"

partial_function (option) execute_loop ::
  "'k lib \<Rightarrow> bytes \<Rightarrow> IBPath \<Rightarrow> 'k \<Rightarrow> real \<Rightarrow> int \<Rightarrow> SimUMAD \<times> world
     \<Rightarrow> ((error + (bytes \<times> IBPath) option) \<times> SimUMAD \<times> world) option" where
  "execute_loop L buf path rmatch expire remaining s =
     (case execute_step L buf path rmatch expire remaining s of
        Return r s1 \<Rightarrow> Some (r, s1)
      | Continue expire1 remaining1 s1 \<Rightarrow> execute_loop L buf path rmatch expire1 remaining1 s1)"

definition execute ::
  "'k lib \<Rightarrow> bytes \<Rightarrow> IBPath \<Rightarrow> bool \<Rightarrow> SimUMAD \<times> world
     \<Rightarrow> ((error + (bytes \<times> IBPath) option) \<times> SimUMAD \<times> world) option" where
  "execute L buf path sendOnly s =
     (case sendto buf path s of
        (Inl e, s1) \<Rightarrow> Some (Inl e, s1)
      | (Inr _, (u, w)) \<Rightarrow>
          if sendOnly then Some (Inr None, u, w)
          else execute_loop L buf path (get_reply_match_key L buf)
                 (mad_timeout path + clock_monotonic w (clock_calls w)) (retries path)
                 (u, w\<lparr>clock_calls := Suc (clock_calls w)\<rparr>))"

subsection \<open>Decoding what was encoded\<close>

text \<open>Feeding the result of a step that can raise to the next step.\<close>

definition bindE :: "'e + 'a \<Rightarrow> ('a \<Rightarrow> 'e + 'b) \<Rightarrow> 'e + 'b" where
  "bindE r f = (case r of Inl e \<Rightarrow> Inl e | Inr a \<Rightarrow> f a)"

text \<open>The opcode of a control envelope on the wire.\<close>

definition opcode :: "byteorder \<Rightarrow> bytes \<Rightarrow> int" where
  "opcode host msg = dec host (take 4 (drop 8 msg))"

text \<open>The envelope with which \<^verbatim>\<open>_get\<close> asks for the port info of a port.\<close>

definition get_portinfo_msg :: "world \<Rightarrow> SimEndPort \<Rightarrow> bytes" where
  "get_portinfo_msg w p =
     projr (struct_ctl_pack (host_order w) SIM_MAGIC (client_id (conn w)) SIM_CTL_GET_PORTINFO 1
              [word_of_int (port_id p)])"

subsection \<open>Sequences of calls on a port\<close>

text \<open>
  The methods and properties of a port, and a sequence of calls of them on a port object,
  each call starting in the state the one before left. The values the calls return are
  dropped.
\<close>

datatype port_call = Lid | Lmc | State | PhysState | Rate | CapMask | SmLid | SmSl
  | PortGuid | Gids | DefaultGid | SubnetTimeout | PkeyIndex int | SaPath

definition call :: "'k lib \<Rightarrow> port_call \<Rightarrow> SimEndPort \<times> world \<Rightarrow> SimEndPort \<times> world" where
  "call L c s =
     (case c of
        Lid \<Rightarrow> snd (lid L s)
      | Lmc \<Rightarrow> snd (lmc L s)
      | State \<Rightarrow> snd (state L s)
      | PhysState \<Rightarrow> snd (phys_state L s)
      | Rate \<Rightarrow> snd (rate L s)
      | CapMask \<Rightarrow> snd (cap_mask L s)
      | SmLid \<Rightarrow> snd (sm_lid L s)
      | SmSl \<Rightarrow> snd (sm_sl L s)
      | PortGuid \<Rightarrow> snd (port_guid L s)
      | Gids \<Rightarrow> snd (gids L s)
      | DefaultGid \<Rightarrow> snd (default_gid L s)
      | SubnetTimeout \<Rightarrow> s
      | PkeyIndex k \<Rightarrow> s
      | SaPath \<Rightarrow> snd (sa_path L s))"

definition calls :: "'k lib \<Rightarrow> port_call list \<Rightarrow> SimEndPort \<times> world \<Rightarrow> SimEndPort \<times> world" where
  "calls L cs s = fold (call L) cs s"

text \<open>
  From \<open>s\<close> to \<open>s'\<close> the partition keys of the port, the byte order and the connection
  stayed, and the control socket only sent envelopes with the opcode
  \<^verbatim>\<open>SIM_CTL_GET_PORTINFO\<close>.
\<close>

definition port_step :: "SimEndPort \<times> world \<Rightarrow> SimEndPort \<times> world \<Rightarrow> bool" where
  "port_step s s' \<longleftrightarrow>
     pkeys (fst s') = pkeys (fst s) \<and> host_order (snd s') = host_order (snd s)
   \<and> conn (snd s') = conn (snd s)
   \<and> take (length (ctl_sent (snd s))) (ctl_sent (snd s')) = ctl_sent (snd s)
   \<and> (\<forall>m \<in> set (drop (length (ctl_sent (snd s))) (ctl_sent (snd s'))).
         opcode (host_order (snd s)) m = SIM_CTL_GET_PORTINFO)"

subsection \<open>A data socket without replies\<close>

text \<open>A data socket on which no poll from now on reports anything readable.\<close>

definition quiet :: "world \<Rightarrow> bool" where
  "quiet w \<longleftrightarrow> (\<forall>n\<ge>pkt_polls w. pkt_inbox w n = None)"

subsection \<open>A control socket whose replies arrive\<close>

text \<open>
  A control socket on which every receive from now on returns a datagram of at least the
  80 bytes of a control envelope.
\<close>

definition replies_arrive :: "world \<Rightarrow> bool" where
  "replies_arrive w \<longleftrightarrow> (\<forall>n\<ge>ctl_recvs w. \<exists>d. ctl_inbox w n = Some d \<and> 80 \<le> length d)"

subsection \<open>Example inputs\<close>

text \<open>Concrete paths, ports, worlds and datagrams on which the theorems below are exercised.\<close>

definition ex_new_path :: IBPath where
  "ex_new_path = \<lparr>end_port = 0, DLID = 0, SLID = 0, SL = 0, dqpn = 0, sqpn = 0, qkey = 0,
     path_pkey_index = 0, packet_life_time = 0, retries = 0, mad_timeout = 0,
     DQPN = None, SQPN = None\<rparr>"

definition ex_path :: IBPath where
  "ex_path = ex_new_path\<lparr>end_port := 1, DLID := 1, SLID := 2, dqpn := 1, sqpn := 1,
     qkey := IB_DEFAULT_QP1_QKEY, retries := 2, mad_timeout := 1\<rparr>"

definition ex_lib :: "bytes lib" where
  "ex_lib = \<lparr>SMPPortInfo_new = (\<lambda>f. 0),
     SMPPortInfo_unpack_from = (\<lambda>b f. le_int (take 1 b)),
     SMPNodeInfo_unpack_from = (\<lambda>b. \<lparr>nodeType = 1, numPorts = 2, nodeGUID = 0,
        systemImageGUID = 0, deviceID = 0, revision = 0\<rparr>),
     IBPath_new = ex_new_path,
     get_reply_match_key = take 1,
     get_match_key = take 1\<rparr>"

definition ex_world :: world where
  "ex_world = \<lparr>host_order = LittleEndian, conn = \<lparr>client_id = 42\<rparr>,
     time_time = (\<lambda>n. 100 + real n), time_calls = 0,
     clock_monotonic = (\<lambda>n. real n / 10), clock_calls = 0,
     ctl_inbox = (\<lambda>n. Some (replicate 80 3)), ctl_recvs = 0, ctl_sent = [],
     pkt_inbox = (\<lambda>n. None), pkt_polls = 0, pkt_sent = [], trace_log = []\<rparr>"

definition ex_umad :: SimUMAD where
  "ex_umad = \<lparr>umad_end_port = 1, tid = 0, trace_func = True\<rparr>"

definition ex_datagram :: "int \<Rightarrow> bytes" where
  "ex_datagram status = projr (struct_request_pack 1 2 3 4 status 3 [7, 8, 9])"

definition ex_other :: bytes where
  "ex_other = projr (struct_request_pack 1 2 3 4 0 3 [6, 8, 9])"

definition ex_world_with :: "bytes \<Rightarrow> world" where
  "ex_world_with d = ex_world\<lparr>pkt_inbox := (\<lambda>n. Some d)\<rparr>"

definition ex_world_two :: world where
  "ex_world_two = ex_world\<lparr>pkt_inbox := (\<lambda>n. if n = 0 then Some ex_other else Some (ex_datagram 0))\<rparr>"

definition ex_dev :: SimDevice where
  "ex_dev = \<lparr>name = ''sim0'',
     node_info = \<lparr>nodeType = 1, numPorts = 2, nodeGUID = 0x0102030405060708,
        systemImageGUID = 0, deviceID = 0, revision = 0\<rparr>,
     fw_ver = 0, node_desc = []\<rparr>"

definition ex_port :: SimEndPort where
  "ex_port = SimEndPort_init ex_lib ex_dev 1"

definition ex_port_default :: SimEndPort where
  "ex_port_default = ex_port\<lparr>port_info := (\<lambda>f. GID_DEFAULT_PREFIX), port_info_age := 100\<rparr>"

definition ex_port_partial :: SimEndPort where
  "ex_port_partial = ex_port\<lparr>pkeys := [0x8001, 0x7FFF], port_info_age := 200\<rparr>"

definition ex_port_nokey :: SimEndPort where
  "ex_port_nokey = ex_port\<lparr>pkeys := [0x8001]\<rparr>"

subsection \<open>Facts about the codecs\<close>

lemma length_le_bytes [simp]: "length (le_bytes n x) = n"
  by (induction n arbitrary: x) simp_all

lemma length_enc [simp]: "length (enc order n x) = n"
  by (cases order) (simp_all add: enc_def)

lemma length_pack_s [simp]: "length (pack_s n s) = n"
  by (simp add: pack_s_def)

lemma le_int_le_bytes: "0 \<le> x \<Longrightarrow> x < 256 ^ n \<Longrightarrow> le_int (le_bytes n x) = x"
proof (induction n arbitrary: x)
  case 0
  then show ?case by simp
next
  case (Suc n)
  have lo: "0 \<le> x div 256"
    using Suc.prems(1) by simp
  have "x < 256 * 256 ^ n"
    using Suc.prems(2) by simp
  then have hi: "x div 256 < 256 ^ n"
    by arith
  have b: "uint (word_of_int x :: byte) = x mod 256"
    by (simp add: uint_word_of_int)
  show ?case
    using Suc.IH [OF lo hi] b by simp
qed

lemma dec_enc [simp]: "in_range n x \<Longrightarrow> dec order (enc order n x) = x"
  by (cases order) (simp_all add: dec_def enc_def in_range_def le_int_le_bytes)

lemma pack_s_short: "length s \<le> n \<Longrightarrow> pack_s n s = s @ replicate (n - length s) 0"
  by (simp add: pack_s_def)

lemma struct_ctl_unpack_pack:
  "struct_ctl_pack h m c t n d = Inr msg \<Longrightarrow>
   struct_ctl_unpack h msg = Inr (m, c, t, n, pack_s 64 d)"
  by (auto simp: struct_ctl_pack_def struct_ctl_unpack_def struct_ctl_size_def
      split: if_splits)

lemma struct_info_unpack_pack:
  "struct_info_pack h c q i d = Inr msg \<Longrightarrow>
   struct_info_unpack h msg = Inr (c, q, i, pack_s 32 d)"
  by (auto simp: struct_info_pack_def struct_info_unpack_def struct_info_size_def
      split: if_splits)

lemma struct_request_unpack_pack:
  "struct_request_pack dl sl dq sq st n pkt = Inr req \<Longrightarrow>
   struct_request_unpack req = Inr (dl, sl, dq, sq, st, n, pack_s 256 pkt)"
  by (auto simp: struct_request_pack_def struct_request_unpack_def struct_request_size_def
      split: if_splits)

lemma length_struct_request_pack:
  "struct_request_pack dl sl dq sq st n pkt = Inr req \<Longrightarrow> length req = 280"
  by (auto simp: struct_request_pack_def split: if_splits)

lemma length_struct_ctl_pack:
  "struct_ctl_pack h m c t n d = Inr msg \<Longrightarrow> length msg = 80"
  by (auto simp: struct_ctl_pack_def split: if_splits)

section \<open>The wire codecs\<close>

text \<open>
  C3, as stated: for every message family, in-range fields and a payload that fits the
  slot, decoding the encoded buffer gives back the fields and a payload equal byte for
  byte to the one encoded. This fails for every payload shorter than its slot: the format
  \<^verbatim>\<open>64s\<close> fills the slot with null bytes and decoding returns the whole slot. The control
  envelope of \<^verbatim>\<open>conn._ctl(SIM_CTL_GET_NODEINFO)\<close>, with the empty payload, decodes to a
  payload of 64 null bytes.
\<close>

theorem codec_roundtrip_counterexample:
  "bindE (struct_ctl_pack LittleEndian SIM_MAGIC 42 SIM_CTL_GET_NODEINFO 0 [])
     (struct_ctl_unpack LittleEndian)
   \<noteq> Inr (SIM_MAGIC, 42, SIM_CTL_GET_NODEINFO, 0, [])"
  by (simp add: bindE_def struct_ctl_pack_def struct_ctl_unpack_def struct_ctl_size_def
      in_range_def SIM_MAGIC_def SIM_CTL_GET_NODEINFO_def pack_s_def)

text \<open>
  C3, amended: for every message family, in-range integer fields and a payload that fits
  the slot (64 bytes in a control envelope, 32 for the node id, 256 for data), decoding the
  encoded buffer gives back every integer field exactly, and as payload the slot: the
  payload that was encoded followed by null bytes up to the size of the slot. The control
  family is encoded in the byte order of the host, whichever it is.
\<close>

theorem codec_roundtrip:
  assumes "in_range 4 magic" and "in_range 4 cid" and "in_range 4 type" and "in_range 4 n"
    and "length data \<le> 64"
    and "in_range 4 cid'" and "in_range 4 qp" and "in_range 4 issm"
    and "length nodeid \<le> 32"
    and "in_range 2 dlid" and "in_range 2 slid" and "in_range 4 dq" and "in_range 4 sq"
    and "in_range 4 status" and "in_range 8 m"
    and "length pkt \<le> 256"
  shows "bindE (struct_ctl_pack host magic cid type n data) (struct_ctl_unpack host)
           = Inr (magic, cid, type, n, data @ replicate (64 - length data) 0)
       \<and> bindE (struct_info_pack host cid' qp issm nodeid) (struct_info_unpack host)
           = Inr (cid', qp, issm, nodeid @ replicate (32 - length nodeid) 0)
       \<and> bindE (struct_request_pack dlid slid dq sq status m pkt) struct_request_unpack
           = Inr (dlid, slid, dq, sq, status, m, pkt @ replicate (256 - length pkt) 0)"
proof -
  obtain msg where 1: "struct_ctl_pack host magic cid type n data = Inr msg"
    using assms(1-4) by (simp add: struct_ctl_pack_def)
  obtain inf where 2: "struct_info_pack host cid' qp issm nodeid = Inr inf"
    using assms(6-8) by (simp add: struct_info_pack_def)
  obtain req where 3: "struct_request_pack dlid slid dq sq status m pkt = Inr req"
    using assms(10-15) by (simp add: struct_request_pack_def)
  have "bindE (struct_ctl_pack host magic cid type n data) (struct_ctl_unpack host)
          = Inr (magic, cid, type, n, data @ replicate (64 - length data) 0)"
    using struct_ctl_unpack_pack [OF 1] assms(5) by (simp add: bindE_def 1 pack_s_short)
  moreover
  have "bindE (struct_info_pack host cid' qp issm nodeid) (struct_info_unpack host)
          = Inr (cid', qp, issm, nodeid @ replicate (32 - length nodeid) 0)"
    using struct_info_unpack_pack [OF 2] assms(9) by (simp add: bindE_def 2 pack_s_short)
  moreover
  have "bindE (struct_request_pack dlid slid dq sq status m pkt) struct_request_unpack
          = Inr (dlid, slid, dq, sq, status, m, pkt @ replicate (256 - length pkt) 0)"
    using struct_request_unpack_pack [OF 3] assms(16) by (simp add: bindE_def 3 pack_s_short)
  ultimately show ?thesis by simp
qed

theorem codec_roundtrip_witness:
  "bindE (struct_ctl_pack BigEndian SIM_MAGIC 42 SIM_CTL_GET_PORTINFO 1 [1])
       (struct_ctl_unpack BigEndian)
     = Inr (SIM_MAGIC, 42, SIM_CTL_GET_PORTINFO, 1, 1 # replicate 63 0)
   \<and> bindE (struct_info_pack BigEndian 4711 0 0 [115, 105, 109, 49])
       (struct_info_unpack BigEndian)
     = Inr (4711, 0, 0, [115, 105, 109, 49] @ replicate 28 0)
   \<and> bindE (struct_request_pack 1 2 1 1 0 3 [7, 8, 9]) struct_request_unpack
     = Inr (1, 2, 1, 1, 0, 3, [7, 8, 9] @ replicate 253 0)"
  using codec_roundtrip [of SIM_MAGIC 42 SIM_CTL_GET_PORTINFO 1 "[1]" 4711 0 0
      "[115, 105, 109, 49]" 1 2 1 1 0 3 "[7, 8, 9]" BigEndian]
  by (simp add: in_range_def SIM_MAGIC_def SIM_CTL_GET_PORTINFO_def)

section \<open>The datagram transactor: sendto and recvfrom\<close>

lemma sendto_raises: "sendto buf path (u, w) = (Inl e, u', w') \<Longrightarrow> u' = u \<and> w' = w"
  by (auto simp: sendto_def split: sum.splits)

text \<open>
  C10: every data envelope that \<^verbatim>\<open>sendto\<close> transmits decodes to the destination LID, source
  LID and the two queue-pair numbers of the path, a status of 0, the length of the buffer
  as payload length, and the buffer in the payload slot. One datagram is appended to what
  was sent on the data socket; the transactor and the rest of the world are unchanged.
\<close>

theorem sendto_envelope:
  assumes "sendto buf path (u, w) = (Inr (), u', w')"
  shows "u' = u
       \<and> w' = w\<lparr>pkt_sent := pkt_sent w @ [last (pkt_sent w')]\<rparr>
       \<and> struct_request_unpack (last (pkt_sent w'))
           = Inr (DLID path, SLID path, dqpn path, sqpn path, 0, int (length buf),
                  pack_s 256 buf)"
proof -
  obtain req where p: "struct_request_pack (DLID path) (SLID path) (dqpn path) (sqpn path) 0
      (int (length buf)) buf = Inr req"
    using assms by (auto simp: sendto_def split: sum.splits)
  have "u' = u" and w': "w' = w\<lparr>pkt_sent := pkt_sent w @ [req]\<rparr>"
    using assms by (simp_all add: sendto_def p)
  moreover have "last (pkt_sent w') = req"
    by (simp add: w')
  ultimately show ?thesis
    using struct_request_unpack_pack [OF p] by simp
qed

theorem sendto_envelope_witness:
  "fst (sendto [7, 8, 9] ex_path (ex_umad, ex_world)) = Inr ()
   \<and> struct_request_unpack (last (pkt_sent (snd (snd (sendto [7, 8, 9] ex_path (ex_umad, ex_world))))))
       = Inr (1, 2, 1, 1, 0, 3, [7, 8, 9] @ replicate 253 0)"
proof -
  obtain r u' w' where h: "sendto [7, 8, 9] ex_path (ex_umad, ex_world) = (r, u', w')"
    by (metis prod_cases3)
  have r: "r = Inr ()"
    using h by (simp add: sendto_def struct_request_pack_def in_range_def ex_path_def ex_new_path_def split: if_splits)
  show ?thesis
    using sendto_envelope [OF h [unfolded r]] h r
    by (simp add: ex_path_def ex_new_path_def pack_s_def)
qed

text \<open>
  C6, amended: \<^verbatim>\<open>recvfrom\<close> returns "no data" when the time left to the deadline is not
  positive or the poll reports nothing readable; this is a value, not an error. Otherwise
  one datagram is read: unless it has exactly 280 bytes, decoding raises
  \<^verbatim>\<open>struct.error\<close>; if it is the encoding of an envelope, the result is the 256-byte
  payload slot and a path of the transactor's port that carries the destination LID and the
  source LID of the envelope. The status and the payload length of the envelope are decoded
  and dropped: an envelope that differs in these two fields only gives the same result.
\<close>

theorem recvfrom_result:
  assumes "recvfrom L wakeat (u, w) = (r, u', w')"
  shows "u' = u
       \<and> (wakeat - clock_monotonic w (clock_calls w) \<le> 0 \<or> pkt_inbox w (pkt_polls w) = None
            \<longrightarrow> r = Inr None)
       \<and> (0 < wakeat - clock_monotonic w (clock_calls w) \<and> pkt_inbox w (pkt_polls w) = Some d
            \<and> length d \<noteq> 280 \<longrightarrow> r = Inl StructError)
       \<and> (0 < wakeat - clock_monotonic w (clock_calls w) \<and> pkt_inbox w (pkt_polls w) = Some d
            \<and> struct_request_pack dlid slid dq sq status n pkt = Inr d
            \<longrightarrow> (\<exists>path. r = Inr (Some (pack_s 256 pkt, path))
                   \<and> DLID path = dlid \<and> SLID path = slid \<and> end_port path = umad_end_port u))
       \<and> (0 < wakeat - clock_monotonic w (clock_calls w) \<and> pkt_inbox w (pkt_polls w) = Some d
            \<and> struct_request_pack dlid slid dq sq status n pkt = Inr d
            \<and> struct_request_pack dlid slid dq sq status2 n2 pkt = Inr d2
            \<longrightarrow> fst (recvfrom L wakeat (u, w\<lparr>pkt_inbox := (pkt_inbox w)(pkt_polls w := Some d2)\<rparr>))
                  = r)"
proof -
  have 1: "u' = u"
    using assms by (auto simp: recvfrom_def Let_def split: if_splits option.splits sum.splits)
  have 2: "r = Inr None"
    if "wakeat - clock_monotonic w (clock_calls w) \<le> 0 \<or> pkt_inbox w (pkt_polls w) = None"
    using assms that by (auto simp: recvfrom_def Let_def split: if_splits)
  have 3: "r = Inl StructError"
    if "0 < wakeat - clock_monotonic w (clock_calls w)" "pkt_inbox w (pkt_polls w) = Some d"
      "length d \<noteq> 280"
  proof -
    have "min (length d) 512 \<noteq> 280"
      using that(3) by simp
    then show ?thesis
      using assms that(1,2)
      by (auto simp: recvfrom_def Let_def struct_request_unpack_def struct_request_size_def)
  qed
  have 4: "r = Inr (Some (pack_s 256 pkt,
                   (IBPath_new L)\<lparr>end_port := umad_end_port u, DLID := dlid, SLID := slid,
                                  DQPN := Some dq, SQPN := Some sq\<rparr>))"
    if "0 < wakeat - clock_monotonic w (clock_calls w)" "pkt_inbox w (pkt_polls w) = Some d"
      and p: "struct_request_pack dlid slid dq sq status n pkt = Inr d"
  proof -
    have "take 512 d = d"
      using length_struct_request_pack [OF p] by simp
    then show ?thesis
      using assms that(1,2) struct_request_unpack_pack [OF p]
      by (auto simp: recvfrom_def Let_def)
  qed
  have 5: "fst (recvfrom L wakeat (u, w\<lparr>pkt_inbox := (pkt_inbox w)(pkt_polls w := Some d2)\<rparr>)) = r"
    if t: "0 < wakeat - clock_monotonic w (clock_calls w)"
      and i: "pkt_inbox w (pkt_polls w) = Some d"
      and p: "struct_request_pack dlid slid dq sq status n pkt = Inr d"
      and p2: "struct_request_pack dlid slid dq sq status2 n2 pkt = Inr d2"
  proof -
    have "take 512 d2 = d2"
      using length_struct_request_pack [OF p2] by simp
    then show ?thesis
      using t struct_request_unpack_pack [OF p2] 4 [OF t i p]
      by (simp add: recvfrom_def Let_def)
  qed
  have pth: "\<exists>path. r = Inr (Some (pack_s 256 pkt, path))
      \<and> DLID path = dlid \<and> SLID path = slid \<and> end_port path = umad_end_port u"
    if "0 < wakeat - clock_monotonic w (clock_calls w)" "pkt_inbox w (pkt_polls w) = Some d"
      "struct_request_pack dlid slid dq sq status n pkt = Inr d"
    using 4 [OF that] by simp
  show ?thesis using 1 2 3 pth 5 by blast
qed

lemma ex_datagram: "in_range 4 st \<Longrightarrow> struct_request_pack 1 2 3 4 st 3 [7, 8, 9] = Inr (ex_datagram st)"
  by (simp add: ex_datagram_def struct_request_pack_def in_range_def)

text \<open>
  C6, as stated, has the status field and the other envelope fields surfaced to the caller.
  Two envelopes that differ in their status only (0 and 5) give the caller the same result.
\<close>

theorem recvfrom_surfaces_status_counterexample:
  "struct_request_unpack (ex_datagram 0) = Inr (1, 2, 3, 4, 0, 3, pack_s 256 [7, 8, 9])
   \<and> struct_request_unpack (ex_datagram 5) = Inr (1, 2, 3, 4, 5, 3, pack_s 256 [7, 8, 9])
   \<and> fst (recvfrom ex_lib 1 (ex_umad, ex_world_with (ex_datagram 0)))
       = fst (recvfrom ex_lib 1 (ex_umad, ex_world_with (ex_datagram 5)))"
proof -
  have a: "struct_request_pack 1 2 3 4 0 3 [7, 8, 9] = Inr (ex_datagram 0)"
    by (rule ex_datagram) (simp add: in_range_def)
  have b: "struct_request_pack 1 2 3 4 5 3 [7, 8, 9] = Inr (ex_datagram 5)"
    by (rule ex_datagram) (simp add: in_range_def)
  have "take 512 (ex_datagram 0) = ex_datagram 0" "take 512 (ex_datagram 5) = ex_datagram 5"
    using length_struct_request_pack [OF a] length_struct_request_pack [OF b] by simp_all
  then show ?thesis
    using struct_request_unpack_pack [OF a] struct_request_unpack_pack [OF b]
    by (simp add: recvfrom_def ex_world_with_def ex_world_def Let_def)
qed


theorem recvfrom_result_witness:
  "fst (recvfrom ex_lib 1 (ex_umad, ex_world)) = Inr None
   \<and> fst (recvfrom ex_lib 1 (ex_umad, ex_world_with [1, 2, 3])) = Inl StructError
   \<and> map_sum id (map_option (map_prod id DLID))
         (fst (recvfrom ex_lib 1 (ex_umad, ex_world_with (ex_datagram 0))))
       = Inr (Some (pack_s 256 [7, 8, 9], 1))
   \<and> map_sum id (map_option (map_prod id SLID))
         (fst (recvfrom ex_lib 1 (ex_umad, ex_world_with (ex_datagram 0))))
       = Inr (Some (pack_s 256 [7, 8, 9], 2))
   \<and> fst (recvfrom ex_lib 1 (ex_umad, ex_world_with (ex_datagram 5)))
       = fst (recvfrom ex_lib 1 (ex_umad, ex_world_with (ex_datagram 0)))"
proof -
  obtain r1 u1 w1 where h1: "recvfrom ex_lib 1 (ex_umad, ex_world) = (r1, u1, w1)"
    by (metis prod_cases3)
  obtain r2 u2 w2 where h2: "recvfrom ex_lib 1 (ex_umad, ex_world_with [1, 2, 3]) = (r2, u2, w2)"
    by (metis prod_cases3)
  obtain r3 u3 w3 where
    h3: "recvfrom ex_lib 1 (ex_umad, ex_world_with (ex_datagram 0)) = (r3, u3, w3)"
    by (metis prod_cases3)
  have p: "struct_request_pack 1 2 3 4 0 3 [7, 8, 9] = Inr (ex_datagram 0)"
    by (rule ex_datagram) (simp add: in_range_def)
  have p5: "struct_request_pack 1 2 3 4 5 3 [7, 8, 9] = Inr (ex_datagram 5)"
    by (rule ex_datagram) (simp add: in_range_def)
  have e: "ex_world_with (ex_datagram 0)
      \<lparr>pkt_inbox := (pkt_inbox (ex_world_with (ex_datagram 0)))
         (pkt_polls (ex_world_with (ex_datagram 0)) := Some (ex_datagram 5))\<rparr>
      = ex_world\<lparr>pkt_inbox := (\<lambda>n. Some (ex_datagram 0))(0 := Some (ex_datagram 5))\<rparr>"
    by (simp add: ex_world_with_def ex_world_def)
  note t3 = recvfrom_result [OF h3, where d = "ex_datagram 0" and dlid = 1 and slid = 2
      and dq = 3 and sq = 4 and status = 0 and n = 3 and pkt = "[7, 8, 9]"
      and ?status2.0 = 5 and ?n2.0 = 3 and ?d2.0 = "ex_datagram 5"]
  have pre: "0 < 1 - clock_monotonic (ex_world_with (ex_datagram 0))
         (clock_calls (ex_world_with (ex_datagram 0)))
      \<and> pkt_inbox (ex_world_with (ex_datagram 0)) (pkt_polls (ex_world_with (ex_datagram 0)))
         = Some (ex_datagram 0)"
    by (simp add: ex_world_with_def ex_world_def)
  have "r1 = Inr None"
    using recvfrom_result [OF h1] by (simp add: ex_world_def)
  moreover have "r2 = Inl StructError"
    using recvfrom_result [OF h2, of "[1, 2, 3]"] by (simp add: ex_world_with_def ex_world_def)
  moreover obtain path where "r3 = Inr (Some (pack_s 256 [7, 8, 9], path))"
    "DLID path = 1" "SLID path = 2"
    using t3 pre p by blast
  moreover have "fst (recvfrom ex_lib 1 (ex_umad,
      ex_world\<lparr>pkt_inbox := (\<lambda>n. Some (ex_datagram 0))(0 := Some (ex_datagram 5))\<rparr>)) = r3"
    using t3 pre p p5 unfolding e by blast
  moreover have "fst (recvfrom ex_lib 1 (ex_umad,
      ex_world\<lparr>pkt_inbox := (\<lambda>n. Some (ex_datagram 0))(0 := Some (ex_datagram 5))\<rparr>))
      = fst (recvfrom ex_lib 1 (ex_umad, ex_world_with (ex_datagram 5)))"
    using struct_request_unpack_pack [OF p5] length_struct_request_pack [OF p5]
    by (simp add: recvfrom_def ex_world_with_def ex_world_def Let_def)
  ultimately show ?thesis
    by (simp add: h1 h2 h3)
qed

section \<open>The port state cache\<close>

lemma pack_B_eq: "in_range 1 x \<Longrightarrow> pack_B x = Inr [word_of_int x]"
  by (simp add: pack_B_def enc_def)

lemma ctl_sends:
  assumes "in_range 4 (client_id (conn w))" and "in_range 4 t" and "length d < 2 ^ 32"
    and "ctl t (Some d) w = (r, w')"
  shows "ctl_sent w' = ctl_sent w @ [last (ctl_sent w')]
       \<and> struct_ctl_unpack (host_order w) (last (ctl_sent w'))
           = Inr (SIM_MAGIC, client_id (conn w), t, int (length d), pack_s 64 d)"
proof -
  have "in_range 4 SIM_MAGIC" by (simp add: in_range_def SIM_MAGIC_def)
  moreover have "in_range 4 (int (length d))" using assms(3) by (simp add: in_range_def)
  ultimately obtain msg where
    p: "struct_ctl_pack (host_order w) SIM_MAGIC (client_id (conn w)) t (int (length d)) d = Inr msg"
    using assms(1,2) by (simp add: struct_ctl_pack_def)
  have "ctl_sent w' = ctl_sent w @ [msg]"
    using assms(4) by (auto simp: ctl_def p Let_def split: option.splits)
  then show ?thesis
    using struct_ctl_unpack_pack [OF p] by simp
qed

lemma ctl_reply:
  assumes "in_range 4 (client_id (conn w))" and "in_range 4 t" and "length d < 2 ^ 32"
    and "ctl_inbox w (ctl_recvs w) = Some rep" and "80 \<le> length rep"
  shows "fst (ctl t (Some d) w)
           = Inr (dec (host_order w) (take 4 rep), dec (host_order w) (take 4 (drop 4 rep)),
                dec (host_order w) (take 4 (drop 8 rep)), dec (host_order w) (take 4 (drop 12 rep)),
                drop 16 (take 80 rep))
       \<and> snd (ctl t (Some d) w)
           = w\<lparr>ctl_sent := ctl_sent w @ [last (ctl_sent (snd (ctl t (Some d) w)))],
               ctl_recvs := Suc (ctl_recvs w)\<rparr>"
proof -
  have "in_range 4 SIM_MAGIC" by (simp add: in_range_def SIM_MAGIC_def)
  moreover have "in_range 4 (int (length d))" using assms(3) by (simp add: in_range_def)
  ultimately obtain msg where
    p: "struct_ctl_pack (host_order w) SIM_MAGIC (client_id (conn w)) t (int (length d)) d = Inr msg"
    using assms(1,2) by (simp add: struct_ctl_pack_def)
  have "min (length rep) 80 = 80" using assms(5) by simp
  then show ?thesis
    using assms(4)
    by (simp add: ctl_def p Let_def struct_ctl_unpack_def struct_ctl_size_def drop_take)
qed

text \<open>
  C2: a read of a port attribute through \<^verbatim>\<open>_get\<close>, at the time \<open>now\<close> that \<^verbatim>\<open>time.time()\<close>
  returns. If \<open>now \<le> _port_info_age + 1\<close>, the cached value is returned, and the port and the
  world (but for the clock that was read) are as before: no control call is issued. If
  \<open>now > _port_info_age + 1\<close>, on a port whose id fits a byte and a connection whose client
  id fits 32 bits, one control envelope is sent, whatever the reply: it decodes to the magic
  number, the client id, the opcode \<^verbatim>\<open>SIM_CTL_GET_PORTINFO\<close>, the length 1 and the port id as
  payload. When the reply arrives with the 80 bytes of an envelope, all cached fields are
  replaced by the decoding of its payload, the time stamp becomes \<open>now\<close>, and the value
  returned is the one of the new fields.
\<close>

theorem get_cache_ttl:
  assumes "get L f (p, w) = (r, p', w')"
  shows "(time_time w (time_calls w) \<le> port_info_age p + 1
            \<longrightarrow> r = Inr (port_info p f) \<and> p' = p \<and> w' = w\<lparr>time_calls := Suc (time_calls w)\<rparr>)
       \<and> (port_info_age p + 1 < time_time w (time_calls w)
            \<and> in_range 1 (port_id p) \<and> in_range 4 (client_id (conn w))
            \<longrightarrow> ctl_sent w' = ctl_sent w @ [last (ctl_sent w')]
              \<and> struct_ctl_unpack (host_order w) (last (ctl_sent w'))
                  = Inr (SIM_MAGIC, client_id (conn w), SIM_CTL_GET_PORTINFO, 1,
                         pack_s 64 [word_of_int (port_id p)]))
       \<and> (port_info_age p + 1 < time_time w (time_calls w)
            \<and> in_range 1 (port_id p) \<and> in_range 4 (client_id (conn w))
            \<and> ctl_inbox w (ctl_recvs w) = Some d \<and> 80 \<le> length d
            \<longrightarrow> p' = p\<lparr>port_info := SMPPortInfo_unpack_from L (drop 16 (take 80 d)),
                       port_info_age := time_time w (time_calls w)\<rparr>
              \<and> r = Inr (SMPPortInfo_unpack_from L (drop 16 (take 80 d)) f)
              \<and> w' = w\<lparr>time_calls := Suc (time_calls w),
                       ctl_sent := ctl_sent w @ [last (ctl_sent w')],
                       ctl_recvs := Suc (ctl_recvs w)\<rparr>)"
proof -
  let ?now = "time_time w (time_calls w)"
  let ?w0 = "w\<lparr>time_calls := Suc (time_calls w)\<rparr>"
  have fresh: "r = Inr (port_info p f) \<and> p' = p \<and> w' = ?w0" if "?now \<le> port_info_age p + 1"
    using assms that by (auto simp: get_def Let_def)
  have t: "in_range 4 SIM_CTL_GET_PORTINFO"
    by (simp add: in_range_def SIM_CTL_GET_PORTINFO_def)
  have sent: "ctl_sent w' = ctl_sent w @ [last (ctl_sent w')]
      \<and> struct_ctl_unpack (host_order w) (last (ctl_sent w'))
          = Inr (SIM_MAGIC, client_id (conn w), SIM_CTL_GET_PORTINFO, 1,
                 pack_s 64 [word_of_int (port_id p)])"
    if stale: "port_info_age p + 1 < ?now" and b: "in_range 1 (port_id p)"
      and c: "in_range 4 (client_id (conn w))"
  proof -
    obtain rc wc where h: "ctl SIM_CTL_GET_PORTINFO (Some [word_of_int (port_id p)]) ?w0 = (rc, wc)"
      by (metis surj_pair)
    have "w' = wc"
      using assms stale by (auto simp: get_def Let_def pack_B_eq [OF b] h split: sum.splits)
    then show ?thesis
      using ctl_sends [OF _ t _ h] c by simp
  qed
  have refreshed: "p' = p\<lparr>port_info := SMPPortInfo_unpack_from L (drop 16 (take 80 d)),
                       port_info_age := ?now\<rparr>
              \<and> r = Inr (SMPPortInfo_unpack_from L (drop 16 (take 80 d)) f)
              \<and> w' = w\<lparr>time_calls := Suc (time_calls w),
                       ctl_sent := ctl_sent w @ [last (ctl_sent w')],
                       ctl_recvs := Suc (ctl_recvs w)\<rparr>"
    if stale: "port_info_age p + 1 < ?now" and b: "in_range 1 (port_id p)"
      and c: "in_range 4 (client_id (conn w))"
      and d: "ctl_inbox w (ctl_recvs w) = Some d" "80 \<le> length d"
  proof -
    obtain rc wc where h: "ctl SIM_CTL_GET_PORTINFO (Some [word_of_int (port_id p)]) ?w0 = (rc, wc)"
      by (metis surj_pair)
    have "payload (projr rc) = drop 16 (take 80 d) \<and> isl rc = False
        \<and> wc = ?w0\<lparr>ctl_sent := ctl_sent w @ [last (ctl_sent wc)],
                    ctl_recvs := Suc (ctl_recvs w)\<rparr>"
      using ctl_reply [of ?w0 SIM_CTL_GET_PORTINFO "[word_of_int (port_id p)]" d] t c d h
      by (simp add: payload_def)
    then show ?thesis
      using assms stale
      by (cases rc) (auto simp: get_def Let_def pack_B_eq [OF b] h)
  qed
  show ?thesis
    using fresh sent refreshed by blast
qed


theorem get_cache_ttl_witness:
  "fst (get ex_lib LID (ex_port, ex_world)) = Inr 3
   \<and> length (ctl_sent (snd (snd (get ex_lib LID (ex_port, ex_world))))) = 1
   \<and> port_info_age (fst (snd (get ex_lib LID (ex_port, ex_world)))) = 100
   \<and> fst (get ex_lib LMC (snd (get ex_lib LID (ex_port, ex_world)))) = Inr 3
   \<and> ctl_sent (snd (snd (get ex_lib LMC (snd (get ex_lib LID (ex_port, ex_world))))))
       = ctl_sent (snd (snd (get ex_lib LID (ex_port, ex_world))))"
proof -
  obtain r1 p1 w1 where h1: "get ex_lib LID (ex_port, ex_world) = (r1, p1, w1)"
    by (metis prod_cases3)
  obtain r2 p2 w2 where h2: "get ex_lib LMC (p1, w1) = (r2, p2, w2)"
    by (metis prod_cases3)
  have pre: "port_info_age ex_port + 1 < time_time ex_world (time_calls ex_world)
      \<and> in_range 1 (port_id ex_port) \<and> in_range 4 (client_id (conn ex_world))
      \<and> ctl_inbox ex_world (ctl_recvs ex_world) = Some (replicate 80 3)
      \<and> 80 \<le> length (replicate 80 (3::byte))"
    by (simp add: ex_world_def ex_port_def SimEndPort_init_def in_range_def)
  note g = get_cache_ttl [OF h1, of "replicate 80 3"]
  have p1: "p1 = ex_port\<lparr>port_info := SMPPortInfo_unpack_from ex_lib (drop 16 (take 80 (replicate 80 3))),
      port_info_age := time_time ex_world (time_calls ex_world)\<rparr>"
    and r1: "r1 = Inr (SMPPortInfo_unpack_from ex_lib (drop 16 (take 80 (replicate 80 3))) LID)"
    and w1: "w1 = ex_world\<lparr>time_calls := Suc (time_calls ex_world),
                       ctl_sent := ctl_sent ex_world @ [last (ctl_sent w1)],
                       ctl_recvs := Suc (ctl_recvs ex_world)\<rparr>"
    using g pre by blast+
  have t1: "time_calls w1 = 1" and tt: "time_time w1 = time_time ex_world"
    and s1: "length (ctl_sent w1) = 1"
    by (subst w1, simp add: ex_world_def)+
  have a1: "port_info_age p1 = 100" and i1: "port_info p1 = (\<lambda>f. 3)"
    by (simp_all add: p1 ex_world_def ex_lib_def)
  have "time_time w1 (time_calls w1) \<le> port_info_age p1 + 1"
    by (simp add: t1 tt a1 ex_world_def)
  then have 2: "r2 = Inr (port_info p1 LMC) \<and> w2 = w1\<lparr>time_calls := Suc (time_calls w1)\<rparr>"
    using get_cache_ttl [OF h2, of "[]"] by simp
  have r1v: "r1 = Inr 3"
    by (simp add: r1 ex_lib_def)
  show ?thesis
    using 2 by (simp add: h1 h2 r1v s1 a1 i1)
qed

section \<open>GID derivation\<close>

lemma get_fresh:
  "time_time w (time_calls w) \<le> port_info_age p + 1 \<Longrightarrow>
   get L f (p, w) = (Inr (port_info p f), p, w\<lparr>time_calls := Suc (time_calls w)\<rparr>)"
  by (simp add: get_def Let_def)

lemma ctl_ok:
  assumes "struct_ctl_pack (host_order w) SIM_MAGIC (client_id (conn w)) t (int (length d)) d
             = Inr msg"
    and "ctl_inbox w (ctl_recvs w) = Some rep" and "80 \<le> length rep"
  shows "ctl t (Some d) w =
     (Inr (dec (host_order w) (take 4 rep), dec (host_order w) (take 4 (drop 4 rep)),
           dec (host_order w) (take 4 (drop 8 rep)), dec (host_order w) (take 4 (drop 12 rep)),
           drop 16 (take 80 rep)),
      w\<lparr>ctl_sent := ctl_sent w @ [msg], ctl_recvs := Suc (ctl_recvs w)\<rparr>)"
proof -
  have "min (length rep) 80 = 80"
    using assms(3) by simp
  then show ?thesis
    using assms(1,2)
    by (simp add: ctl_def Let_def struct_ctl_unpack_def struct_ctl_size_def drop_take)
qed

lemma get_refresh:
  assumes "port_info_age p + 1 < time_time w (time_calls w)"
    and "in_range 1 (port_id p)" and "in_range 4 (client_id (conn w))"
    and "ctl_inbox w (ctl_recvs w) = Some d" and "80 \<le> length d"
  shows "get L f (p, w) =
     (Inr (SMPPortInfo_unpack_from L (drop 16 (take 80 d)) f),
      p\<lparr>port_info := SMPPortInfo_unpack_from L (drop 16 (take 80 d)),
        port_info_age := time_time w (time_calls w)\<rparr>,
      w\<lparr>time_calls := Suc (time_calls w), ctl_sent := ctl_sent w @ [get_portinfo_msg w p],
        ctl_recvs := Suc (ctl_recvs w)\<rparr>)"
proof -
  let ?w0 = "w\<lparr>time_calls := Suc (time_calls w)\<rparr>"
  have "struct_ctl_pack (host_order ?w0) SIM_MAGIC (client_id (conn ?w0)) SIM_CTL_GET_PORTINFO
          (int (length [word_of_int (port_id p) :: byte])) [word_of_int (port_id p)]
        = Inr (get_portinfo_msg w p)"
    using assms(3)
    by (simp add: get_portinfo_msg_def struct_ctl_pack_def in_range_def SIM_MAGIC_def
        SIM_CTL_GET_PORTINFO_def)
  from ctl_ok [OF this, of d] assms(1,4,5) show ?thesis
    by (simp add: get_def Let_def pack_B_eq [OF assms(2)] payload_def)
qed

lemma get_port:
  assumes "get L f (p, w) = (r, p', w')"
  shows "parent p' = parent p \<and> port_id p' = port_id p \<and> pkeys p' = pkeys p
       \<and> gids_attr p' = gids_attr p \<and> cached_sa_path p' = cached_sa_path p
       \<and> cached_subnet_timeout p' = cached_subnet_timeout p"
  using assms
  by (auto simp: get_def Let_def split: if_splits sum.splits prod.splits)

lemma GUID_bytes_split:
  "GUID_bytes g = enc BigEndian 7 (uint g div 256) @ [word_of_int (uint g)]"
proof -
  have "(8::nat) = Suc 7"
    by simp
  then have "le_bytes 8 (uint g) = word_of_int (uint g) # le_bytes 7 (uint g div 256)"
    by (simp only: le_bytes.simps)
  then show ?thesis
    by (simp add: GUID_bytes_def enc_def)
qed

lemma guid_of_port:
  assumes "in_range 1 i"
  shows "bytearray_set (pack_into g (replicate 8 0)) 7 i
           = Inr (take 7 (GUID_bytes g) @ [word_of_int i])"
  using assms
  by (simp add: bytearray_set_def pack_into_def GUID_bytes_split list_update_append)

lemma interface_id_mkGID [simp]: "interface_id (mkGID prefix guid) = guid"
  by (simp add: interface_id_def mkGID_def)

lemma gids_first:
  assumes "gids_attr p = None" and "get L GIDPrefix (p, w) = (Inr prefix, p1, w1)"
    and "in_range 1 (port_id p)"
  shows "gids L (p, w) =
     (let iid = take 7 (GUID_bytes (node_guid (parent p))) @ [word_of_int (port_id p)];
          g = (if prefix = GID_DEFAULT_PREFIX then [mkGID GID_DEFAULT_PREFIX iid]
               else [mkGID prefix iid, mkGID GID_DEFAULT_PREFIX iid])
      in (Inr g, p1\<lparr>gids_attr := Some g\<rparr>, w1))"
proof -
  have "parent p1 = parent p" "port_id p1 = port_id p"
    using get_port [OF assms(2)] by simp_all
  then show ?thesis
    using assms guid_of_port [OF assms(3), of "node_guid (parent p)"]
    by (simp add: gids_def andthen_def Let_def)
qed

text \<open>
  C4, amended: on the first access (\<^verbatim>\<open>_gids\<close> is \<open>None\<close>), for a port whose id \<open>p\<close> fits a
  byte and a read of the cached GID prefix that returns \<open>prefix\<close>, the interface identifier
  of the default-prefixed GID has eight bytes; its last byte is \<open>p\<close> and the seven bytes
  before it are the first seven bytes of the node GUID \<open>G\<close> in network order, that is its seven
  most significant bytes, \<open>G div 256\<close>. If \<open>prefix\<close> is the default prefix, \<^verbatim>\<open>gids\<close> is the
  one-element tuple of the default-prefixed GID, otherwise it is the pair of the
  custom-prefixed GID and the default-prefixed GID, in this order. The tuple is stored in
  \<^verbatim>\<open>_gids\<close>.
\<close>

theorem gids_derivation:
  assumes "gids_attr p = None" and "get L GIDPrefix (p, w) = (Inr prefix, p1, w1)"
    and "in_range 1 (port_id p)"
    and "iid = take 7 (GUID_bytes (node_guid (parent p))) @ [word_of_int (port_id p)]"
    and "dgid = mkGID GID_DEFAULT_PREFIX iid"
    and "g = (if prefix = GID_DEFAULT_PREFIX then [dgid] else [mkGID prefix iid, dgid])"
  shows "gids L (p, w) = (Inr g, p1\<lparr>gids_attr := Some g\<rparr>, w1)
       \<and> length (interface_id dgid) = 8
       \<and> uint (last (interface_id dgid)) = port_id p
       \<and> butlast (interface_id dgid) = take 7 (GUID_bytes (node_guid (parent p)))
       \<and> butlast (interface_id dgid) = enc BigEndian 7 (uint (node_guid (parent p)) div 256)"
proof -
  have "uint (word_of_int (port_id p) :: byte) = port_id p"
    using assms(3) by (simp add: in_range_def uint_word_of_int)
  moreover have "take 7 (GUID_bytes (node_guid (parent p)))
      = enc BigEndian 7 (uint (node_guid (parent p)) div 256)"
    by (simp add: GUID_bytes_split)
  moreover have "length (GUID_bytes (node_guid (parent p))) = 8"
    by (simp add: GUID_bytes_def)
  ultimately show ?thesis
    using gids_first [OF assms(1-3)] assms(4-6) by (simp add: Let_def)
qed

lemma gids_memo: "gids_attr p = Some g \<Longrightarrow> gids L (p, w) = (Inr g, p, w)"
  by (simp add: gids_def)


text \<open>
  C4, as stated, has the seven remaining bytes of the interface identifier equal to the low
  seven bytes of the GUID, where low is last, as for the byte that holds the port id. For
  the node GUID \<open>0x0102030405060708\<close> and port 1 the identifier is \<open>01 02 03 04 05 06 07 01\<close>:
  its first seven bytes are not the last seven bytes \<open>02 .. 08\<close> of the GUID.
\<close>

theorem gids_low_bytes_counterexample:
  "fst (gids ex_lib (ex_port, ex_world))
     = Inr [mkGID 3 [1, 2, 3, 4, 5, 6, 7, 1], mkGID GID_DEFAULT_PREFIX [1, 2, 3, 4, 5, 6, 7, 1]]
   \<and> GUID_bytes (node_guid (parent ex_port)) = [1, 2, 3, 4, 5, 6, 7, 8]
   \<and> butlast (interface_id (mkGID GID_DEFAULT_PREFIX [1, 2, 3, 4, 5, 6, 7, 1]))
       \<noteq> drop 1 (GUID_bytes (node_guid (parent ex_port)))"
proof -
  have g: "GUID_bytes 0x0102030405060708 = [1, 2, 3, 4, 5, 6, 7, 8]"
    by code_simp
  have p: "parent ex_port = ex_dev" "port_id ex_port = 1" "gids_attr ex_port = None"
    "port_info_age ex_port = 0"
    by (simp_all add: ex_port_def SimEndPort_init_def)
  have n: "node_guid ex_dev = 0x0102030405060708"
    by (simp add: node_guid_def ex_dev_def)
  have "get ex_lib GIDPrefix (ex_port, ex_world) =
     (Inr (SMPPortInfo_unpack_from ex_lib (drop 16 (take 80 (replicate 80 3))) GIDPrefix),
      ex_port\<lparr>port_info := SMPPortInfo_unpack_from ex_lib (drop 16 (take 80 (replicate 80 3))),
        port_info_age := time_time ex_world (time_calls ex_world)\<rparr>,
      ex_world\<lparr>time_calls := Suc (time_calls ex_world),
        ctl_sent := ctl_sent ex_world @ [get_portinfo_msg ex_world ex_port],
        ctl_recvs := Suc (ctl_recvs ex_world)\<rparr>)"
    by (rule get_refresh) (simp_all add: p ex_world_def in_range_def)
  moreover have "SMPPortInfo_unpack_from ex_lib (drop 16 (take 80 (replicate 80 3))) GIDPrefix = 3"
    by (simp add: ex_lib_def)
  ultimately have "fst (gids ex_lib (ex_port, ex_world))
     = Inr [mkGID 3 [1, 2, 3, 4, 5, 6, 7, 1], mkGID GID_DEFAULT_PREFIX [1, 2, 3, 4, 5, 6, 7, 1]]"
    using gids_first [of ex_port ex_lib ex_world 3]
    by (simp add: p n g in_range_def GID_DEFAULT_PREFIX_def Let_def)
  then show ?thesis
    by (simp add: p n g)
qed

theorem gids_derivation_witness:
  "fst (gids ex_lib (ex_port_default, ex_world))
     = Inr [mkGID GID_DEFAULT_PREFIX [1, 2, 3, 4, 5, 6, 7, 1]]
   \<and> butlast (interface_id (mkGID GID_DEFAULT_PREFIX [1, 2, 3, 4, 5, 6, 7, 1]))
       = take 7 (GUID_bytes 0x0102030405060708)"
proof -
  have g: "GUID_bytes 0x0102030405060708 = [1, 2, 3, 4, 5, 6, 7, 8]"
    by code_simp
  have p: "parent ex_port_default = ex_dev" "port_id ex_port_default = 1"
    "gids_attr ex_port_default = None" "port_info_age ex_port_default = 100"
    "port_info ex_port_default GIDPrefix = GID_DEFAULT_PREFIX"
    by (simp_all add: ex_port_default_def ex_port_def SimEndPort_init_def)
  have n: "node_guid ex_dev = 0x0102030405060708"
    by (simp add: node_guid_def ex_dev_def)
  have h: "get ex_lib GIDPrefix (ex_port_default, ex_world) =
     (Inr GID_DEFAULT_PREFIX, ex_port_default,
      ex_world\<lparr>time_calls := Suc (time_calls ex_world)\<rparr>)"
    using get_fresh [of ex_world ex_port_default ex_lib GIDPrefix]
    by (simp add: p ex_world_def)
  have r: "in_range 1 (port_id ex_port_default)"
    by (simp add: p in_range_def)
  show ?thesis
    using gids_derivation [OF p(3) h r refl refl refl]
    by (simp add: p n g)
qed

section \<open>The administrative path\<close>

lemma tuple_index_in:
  "x \<in> set xs \<Longrightarrow> tuple_index xs x = Inr (int (length (takeWhile (\<lambda>y. y \<noteq> x) xs)))"
  by (induction xs) auto

lemma tuple_index_notin: "x \<notin> set xs \<Longrightarrow> tuple_index xs x = Inl ValueError"
  by (induction xs) auto

lemma find_sa_pkey_eq:
  "find_sa_pkey p =
     (if PKEY_DEFAULT \<in> set (pkeys p)
      then Inr (int (length (takeWhile (\<lambda>k. k \<noteq> PKEY_DEFAULT) (pkeys p))))
      else if PKEY_PARTIAL_DEFAULT \<in> set (pkeys p)
      then Inr (int (length (takeWhile (\<lambda>k. k \<noteq> PKEY_PARTIAL_DEFAULT) (pkeys p))))
      else Inl (RDMAError ''Could not find the SA default PKey''))"
  by (simp add: find_sa_pkey_def pkey_index_def tuple_index_in tuple_index_notin)

lemma ctl_error: "ctl t d w = (Inl e, w') \<Longrightarrow> e = StructError \<or> e = Blocks"
  by (auto simp: ctl_def Let_def struct_ctl_pack_def struct_ctl_unpack_def
      split: sum.splits option.splits if_splits)

lemma get_error: "get L f (p, w) = (Inl e, s') \<Longrightarrow> e = StructError \<or> e = Blocks"
  by (auto simp: get_def Let_def pack_B_def split: if_splits sum.splits prod.splits
      dest: ctl_error)

lemma sa_path_memo: "cached_sa_path p = Some path \<Longrightarrow> sa_path L (p, w) = (Inr path, p, w)"
  by (simp add: sa_path_def)

lemma sa_path_nokey:
  assumes "cached_sa_path p = None" and "find_sa_pkey p = Inl e"
  shows "sa_path L (p, w) = (Inl e, p, w)"
  using assms by (simp add: sa_path_def)

lemma sa_path_key:
  assumes "cached_sa_path p = None" and "find_sa_pkey p = Inr i"
    and "sa_path L (p, w) = (r, p', w')"
  shows "(\<forall>e. r = Inl e \<longrightarrow> e = StructError \<or> e = Blocks)
       \<and> (\<forall>path. r = Inr path \<longrightarrow> cached_sa_path p' = Some path \<and> path_pkey_index path = i
              \<and> pkeys p' = pkeys p)"
proof -
  obtain r1 p1 w1 where g1: "get L masterSMLID (p, w) = (r1, p1, w1)"
    by (metis prod_cases3)
  obtain r2 p2 w2 where g2: "get L LID (p1, w1) = (r2, p2, w2)"
    by (metis prod_cases3)
  obtain r3 p3 w3 where g3: "get L masterSMSL (p2, w2) = (r3, p3, w3)"
    by (metis prod_cases3)
  have pk: "pkeys p3 = pkeys p"
    using get_port [OF g1] get_port [OF g2] get_port [OF g3] by simp
  show ?thesis
  proof (cases r1)
    case (Inl e)
    then show ?thesis
      using assms g1 get_error [of L masterSMLID p w e]
      by (auto simp: sa_path_def andthen_def sm_lid_def)
  next
    case a: (Inr dl)
    show ?thesis
    proof (cases r2)
      case (Inl e)
      then show ?thesis
        using assms g1 g2 a get_error [of L LID p1 w1 e]
        by (auto simp: sa_path_def andthen_def sm_lid_def lid_def)
    next
      case b: (Inr sl)
      show ?thesis
      proof (cases r3)
        case (Inl e)
        then show ?thesis
          using assms g1 g2 g3 a b get_error [of L masterSMSL p2 w2 e]
          by (auto simp: sa_path_def andthen_def sm_lid_def lid_def sm_sl_def)
      next
        case (Inr svl)
        then show ?thesis
          using assms g1 g2 g3 a b pk
          by (auto simp: sa_path_def andthen_def sm_lid_def lid_def sm_sl_def Let_def)
      qed
    qed
  qed
qed

lemma sa_path_fresh:
  assumes "cached_sa_path p = None" and "find_sa_pkey p = Inr i"
    and "time_time w (time_calls w) \<le> port_info_age p + 1"
    and "time_time w (Suc (time_calls w)) \<le> port_info_age p + 1"
    and "time_time w (Suc (Suc (time_calls w))) \<le> port_info_age p + 1"
  shows "sa_path L (p, w) =
     (let path = (IBPath_new L)\<lparr>end_port := port_id p, DLID := port_info p masterSMLID,
                   SLID := port_info p LID, SL := port_info p masterSMSL, dqpn := 1, sqpn := 1,
                   qkey := IB_DEFAULT_QP1_QKEY, path_pkey_index := i,
                   packet_life_time := subnet_timeout p\<rparr>
      in (Inr path, p\<lparr>cached_sa_path := Some path\<rparr>,
          w\<lparr>time_calls := Suc (Suc (Suc (time_calls w)))\<rparr>))"
  using assms
  by (simp add: sa_path_def andthen_def sm_lid_def lid_def sm_sl_def get_fresh Let_def
      subnet_timeout_def)

lemma get_returns:
  assumes "in_range 1 (port_id p)" and "in_range 4 (client_id (conn w))"
    and "replies_arrive w"
  shows "\<exists>v p1 w1. get L f (p, w) = (Inr v, p1, w1)
           \<and> in_range 1 (port_id p1) \<and> in_range 4 (client_id (conn w1)) \<and> replies_arrive w1"
proof (cases "time_time w (time_calls w) \<le> port_info_age p + 1")
  case True
  then show ?thesis
    using assms by (simp add: get_fresh replies_arrive_def)
next
  case False
  obtain d where d: "ctl_inbox w (ctl_recvs w) = Some d" "80 \<le> length d"
    using assms(3) by (auto simp: replies_arrive_def)
  have "port_info_age p + 1 < time_time w (time_calls w)"
    using False by simp
  from get_refresh [OF this assms(1,2) d, of L f] assms show ?thesis
    by (simp add: replies_arrive_def)
qed

lemma sa_path_built:
  assumes "cached_sa_path p = None" and "find_sa_pkey p = Inr i"
    and "in_range 1 (port_id p)" and "in_range 4 (client_id (conn w))"
    and "replies_arrive w"
  shows "\<exists>path p' w'. sa_path L (p, w) = (Inr path, p', w')
           \<and> cached_sa_path p' = Some path \<and> path_pkey_index path = i
           \<and> dqpn path = 1 \<and> sqpn path = 1 \<and> qkey path = IB_DEFAULT_QP1_QKEY"
proof -
  obtain v1 p1 w1 where g1: "get L masterSMLID (p, w) = (Inr v1, p1, w1)"
    and a1: "in_range 1 (port_id p1)" "in_range 4 (client_id (conn w1))" "replies_arrive w1"
    using get_returns [OF assms(3-5)] by blast
  obtain v2 p2 w2 where g2: "get L LID (p1, w1) = (Inr v2, p2, w2)"
    and a2: "in_range 1 (port_id p2)" "in_range 4 (client_id (conn w2))" "replies_arrive w2"
    using get_returns [OF a1] by blast
  obtain v3 p3 w3 where g3: "get L masterSMSL (p2, w2) = (Inr v3, p3, w3)"
    using get_returns [OF a2] by blast
  show ?thesis
    using assms(1,2) g1 g2 g3
    by (simp add: sa_path_def andthen_def sm_lid_def lid_def sm_sl_def Let_def)
qed

text \<open>
  C7: the first access to \<^verbatim>\<open>sa_path\<close> (no \<^verbatim>\<open>_cached_sa_path\<close> yet). It raises the error for a
  missing partition key (\<^verbatim>\<open>rdma.RDMAError\<close> "Could not find the SA default PKey", the
  configuration error of the specification) exactly when neither \<^verbatim>\<open>PKEY_DEFAULT\<close> nor
  \<^verbatim>\<open>PKEY_PARTIAL_DEFAULT\<close> is among the keys of the port. When one of them is present, the only
  way the access can fail is a failing control call of a port-info refresh (\<^verbatim>\<open>struct.error\<close>,
  or a reply that never arrives). A path that is returned is stored in the port; its pkey
  index is the position of the full-membership key if that is present and of the
  partial-membership key otherwise; and every later access, in whatever world, returns this
  path and leaves port and world untouched: no control call, no clock read. With a key
  present and a port-info cache that is fresh at the three attribute reads, the path is
  built from the cached master SM LID, LID and master SM SL, queue pair 1 on both ends, the
  default queue key and the subnet timeout, without a control call. With a key present, a
  port id that fits a byte, a client id that fits 32 bits and a control socket on which
  every reply arrives with at least 80 bytes, the path is built and stored whatever the age
  of the cache, so also on a new port, whose first attribute read refreshes the cache.
\<close>

theorem sa_path_lookup:
  assumes "cached_sa_path p = None" and "sa_path L (p, w) = (r, p', w')"
  shows "(r = Inl (RDMAError ''Could not find the SA default PKey'')
            \<longleftrightarrow> PKEY_DEFAULT \<notin> set (pkeys p) \<and> PKEY_PARTIAL_DEFAULT \<notin> set (pkeys p))
       \<and> (\<forall>e. r = Inl e \<and> (PKEY_DEFAULT \<in> set (pkeys p) \<or> PKEY_PARTIAL_DEFAULT \<in> set (pkeys p))
              \<longrightarrow> e = StructError \<or> e = Blocks)
       \<and> (\<forall>path. r = Inr path \<longrightarrow>
              cached_sa_path p' = Some path
            \<and> path_pkey_index path
                = (if PKEY_DEFAULT \<in> set (pkeys p)
                   then int (length (takeWhile (\<lambda>k. k \<noteq> PKEY_DEFAULT) (pkeys p)))
                   else int (length (takeWhile (\<lambda>k. k \<noteq> PKEY_PARTIAL_DEFAULT) (pkeys p))))
            \<and> (\<forall>w2. sa_path L (p', w2) = (Inr path, p', w2)))
       \<and> ((PKEY_DEFAULT \<in> set (pkeys p) \<or> PKEY_PARTIAL_DEFAULT \<in> set (pkeys p))
            \<and> (\<forall>k<3. time_time w (time_calls w + k) \<le> port_info_age p + 1)
            \<longrightarrow> (\<exists>path. r = Inr path \<and> DLID path = port_info p masterSMLID
                    \<and> SLID path = port_info p LID \<and> SL path = port_info p masterSMSL
                    \<and> dqpn path = 1 \<and> sqpn path = 1 \<and> qkey path = IB_DEFAULT_QP1_QKEY
                    \<and> packet_life_time path = subnet_timeout p)
              \<and> ctl_sent w' = ctl_sent w)
       \<and> ((PKEY_DEFAULT \<in> set (pkeys p) \<or> PKEY_PARTIAL_DEFAULT \<in> set (pkeys p))
            \<and> in_range 1 (port_id p) \<and> in_range 4 (client_id (conn w))
            \<and> (\<forall>n\<ge>ctl_recvs w. \<exists>d. ctl_inbox w n = Some d \<and> 80 \<le> length d)
            \<longrightarrow> (\<exists>path. r = Inr path \<and> cached_sa_path p' = Some path
                    \<and> dqpn path = 1 \<and> sqpn path = 1 \<and> qkey path = IB_DEFAULT_QP1_QKEY))"
proof (cases "find_sa_pkey p")
  case (Inl e)
  then have none: "PKEY_DEFAULT \<notin> set (pkeys p) \<and> PKEY_PARTIAL_DEFAULT \<notin> set (pkeys p)"
    and e: "e = RDMAError ''Could not find the SA default PKey''"
    by (auto simp: find_sa_pkey_eq split: if_splits)
  then show ?thesis
    using sa_path_nokey [OF assms(1) Inl, of L w] assms(2) by simp
next
  case (Inr i)
  then have some: "PKEY_DEFAULT \<in> set (pkeys p) \<or> PKEY_PARTIAL_DEFAULT \<in> set (pkeys p)"
    and i: "i = (if PKEY_DEFAULT \<in> set (pkeys p)
                   then int (length (takeWhile (\<lambda>k. k \<noteq> PKEY_DEFAULT) (pkeys p)))
                   else int (length (takeWhile (\<lambda>k. k \<noteq> PKEY_PARTIAL_DEFAULT) (pkeys p))))"
    by (auto simp: find_sa_pkey_eq split: if_splits)
  note k = sa_path_key [OF assms(1) Inr assms(2)]
  have 1: "r \<noteq> Inl (RDMAError ''Could not find the SA default PKey'')"
    using k by auto
  have 3: "cached_sa_path p' = Some path \<and> path_pkey_index path = i
      \<and> (\<forall>w2. sa_path L (p', w2) = (Inr path, p', w2))" if "r = Inr path" for path
    using k that by (simp add: sa_path_memo)
  have 4: "(\<exists>path. r = Inr path \<and> DLID path = port_info p masterSMLID
                    \<and> SLID path = port_info p LID \<and> SL path = port_info p masterSMSL
                    \<and> dqpn path = 1 \<and> sqpn path = 1 \<and> qkey path = IB_DEFAULT_QP1_QKEY
                    \<and> packet_life_time path = subnet_timeout p)
              \<and> ctl_sent w' = ctl_sent w"
    if f: "\<forall>k<3. time_time w (time_calls w + k) \<le> port_info_age p + 1"
  proof -
    have "time_time w (time_calls w) \<le> port_info_age p + 1"
      "time_time w (Suc (time_calls w)) \<le> port_info_age p + 1"
      "time_time w (Suc (Suc (time_calls w))) \<le> port_info_age p + 1"
      using f [rule_format, of 0] f [rule_format, of 1] f [rule_format, of 2] by simp_all
    from sa_path_fresh [OF assms(1) Inr this, of L] assms(2) show ?thesis
      by (auto simp: Let_def)
  qed
  have 5: "\<exists>path. r = Inr path \<and> cached_sa_path p' = Some path
      \<and> dqpn path = 1 \<and> sqpn path = 1 \<and> qkey path = IB_DEFAULT_QP1_QKEY"
    if "in_range 1 (port_id p)" "in_range 4 (client_id (conn w))"
      "\<forall>n\<ge>ctl_recvs w. \<exists>d. ctl_inbox w n = Some d \<and> 80 \<le> length d"
    using sa_path_built [OF assms(1) Inr that(1,2), of L] that(3) assms(2)
    by (auto simp: replies_arrive_def)
  show ?thesis
    using some 1 k 3 4 5 i by blast
qed


theorem sa_path_lookup_witness:
  "fst (sa_path ex_lib (ex_port_nokey, ex_world))
     = Inl (RDMAError ''Could not find the SA default PKey'')
   \<and> map_sum id path_pkey_index (fst (sa_path ex_lib (ex_port_partial, ex_world))) = Inr 1
   \<and> map_sum id Some (fst (sa_path ex_lib (ex_port_partial, ex_world)))
       = Inr (cached_sa_path (fst (snd (sa_path ex_lib (ex_port_partial, ex_world)))))
   \<and> sa_path ex_lib (snd (sa_path ex_lib (ex_port_partial, ex_world)))
       = sa_path ex_lib (ex_port_partial, ex_world)
   \<and> port_info_age (SimEndPort_init ex_lib ex_dev 1) = 0
   \<and> map_sum id path_pkey_index (fst (sa_path ex_lib (SimEndPort_init ex_lib ex_dev 1, ex_world)))
       = Inr 0
   \<and> map_sum id Some (fst (sa_path ex_lib (SimEndPort_init ex_lib ex_dev 1, ex_world)))
       = Inr (cached_sa_path (fst (snd (sa_path ex_lib (SimEndPort_init ex_lib ex_dev 1, ex_world)))))"
proof -
  obtain r1 p1 w1 where h1: "sa_path ex_lib (ex_port_nokey, ex_world) = (r1, p1, w1)"
    by (metis prod_cases3)
  obtain r2 p2 w2 where h2: "sa_path ex_lib (ex_port_partial, ex_world) = (r2, p2, w2)"
    by (metis prod_cases3)
  obtain r3 p3 w3 where
    h3: "sa_path ex_lib (SimEndPort_init ex_lib ex_dev 1, ex_world) = (r3, p3, w3)"
    by (metis prod_cases3)
  have c: "cached_sa_path ex_port_nokey = None" "cached_sa_path ex_port_partial = None"
    "cached_sa_path (SimEndPort_init ex_lib ex_dev 1) = None"
    by (simp_all add: ex_port_nokey_def ex_port_partial_def ex_port_def SimEndPort_init_def)
  have k1: "PKEY_DEFAULT \<notin> set (pkeys ex_port_nokey)
      \<and> PKEY_PARTIAL_DEFAULT \<notin> set (pkeys ex_port_nokey)"
    by (simp add: ex_port_nokey_def PKEY_DEFAULT_def PKEY_PARTIAL_DEFAULT_def)
  have k2: "PKEY_DEFAULT \<notin> set (pkeys ex_port_partial)
      \<and> PKEY_PARTIAL_DEFAULT \<in> set (pkeys ex_port_partial)
      \<and> int (length (takeWhile (\<lambda>k. k \<noteq> PKEY_PARTIAL_DEFAULT) (pkeys ex_port_partial))) = 1"
    by (simp add: ex_port_partial_def PKEY_DEFAULT_def PKEY_PARTIAL_DEFAULT_def)
  have k3: "PKEY_DEFAULT \<in> set (pkeys (SimEndPort_init ex_lib ex_dev 1))
      \<and> int (length (takeWhile (\<lambda>k. k \<noteq> PKEY_DEFAULT)
            (pkeys (SimEndPort_init ex_lib ex_dev 1)))) = 0"
    by (simp add: SimEndPort_init_def PKEY_DEFAULT_def)
  have f: "\<forall>k<3. time_time ex_world (time_calls ex_world + k) \<le> port_info_age ex_port_partial + 1"
    by (simp add: ex_world_def ex_port_partial_def)
  have n: "in_range 1 (port_id (SimEndPort_init ex_lib ex_dev 1))
      \<and> in_range 4 (client_id (conn ex_world))
      \<and> (\<forall>n\<ge>ctl_recvs ex_world. \<exists>d. ctl_inbox ex_world n = Some d \<and> 80 \<le> length d)"
    by (simp add: SimEndPort_init_def ex_world_def in_range_def)
  have 1: "r1 = Inl (RDMAError ''Could not find the SA default PKey'')"
    using sa_path_lookup [OF c(1) h1] k1 by blast
  obtain path where 2: "r2 = Inr path"
    using sa_path_lookup [OF c(2) h2] k2 f by blast
  have 3: "cached_sa_path p2 = Some path \<and> path_pkey_index path = 1
      \<and> sa_path ex_lib (p2, w2) = (Inr path, p2, w2)"
    using sa_path_lookup [OF c(2) h2] 2 k2 by simp
  obtain path3 where 4: "r3 = Inr path3" "cached_sa_path p3 = Some path3"
    using sa_path_lookup [OF c(3) h3] k3 n by blast
  have 5: "path_pkey_index path3 = 0"
    using sa_path_lookup [OF c(3) h3] 4 k3 by simp
  have a: "port_info_age (SimEndPort_init ex_lib ex_dev 1) = 0"
    by (simp add: SimEndPort_init_def)
  show ?thesis
    using 1 2 3 4 5 a by (simp add: h1 h2 h3)
qed

section \<open>The partition keys of a port\<close>

lemma port_step_refl [simp]: "port_step s s"
  by (simp add: port_step_def)

lemma port_step_trans:
  assumes "port_step s s1" and "port_step s1 s2"
  shows "port_step s s2"
proof -
  obtain ms where ms: "ctl_sent (snd s1) = ctl_sent (snd s) @ ms"
    using assms(1) by (metis append_take_drop_id port_step_def)
  obtain ns where ns: "ctl_sent (snd s2) = ctl_sent (snd s1) @ ns"
    using assms(2) by (metis append_take_drop_id port_step_def)
  have "\<forall>m\<in>set ms. opcode (host_order (snd s)) m = SIM_CTL_GET_PORTINFO"
    using assms(1) by (simp add: port_step_def ms)
  moreover have "\<forall>m\<in>set ns. opcode (host_order (snd s)) m = SIM_CTL_GET_PORTINFO"
    using assms by (simp add: port_step_def ns)
  ultimately show ?thesis
    using assms by (auto simp: port_step_def ms ns)
qed

lemma opcode_pack:
  "struct_ctl_pack h m c t n d = Inr msg \<Longrightarrow> opcode h msg = t"
  using struct_ctl_unpack_pack [of h m c t n d msg]
  by (simp add: struct_ctl_unpack_def opcode_def split: if_splits)

lemma ctl_world:
  assumes "ctl t d w = (r, w')"
  shows "host_order w' = host_order w \<and> conn w' = conn w
       \<and> (ctl_sent w' = ctl_sent w
          \<or> (\<exists>msg. ctl_sent w' = ctl_sent w @ [msg] \<and> opcode (host_order w) msg = t))"
  using assms
  by (auto simp: ctl_def Let_def split: sum.splits option.splits dest: opcode_pack)

lemma get_step: "port_step s (snd (get L f s))"
proof -
  obtain p w where s: "s = (p, w)"
    by (cases s)
  obtain r p' w' where g: "get L f (p, w) = (r, p', w')"
    by (metis prod_cases3)
  have pk: "pkeys p' = pkeys p"
    using get_port [OF g] by simp
  show ?thesis
  proof (cases "time_time w (time_calls w) \<le> port_info_age p + 1")
    case True
    then show ?thesis
      by (simp add: s get_fresh port_step_def)
  next
    case False
    show ?thesis
    proof (cases "pack_B (port_id p)")
      case (Inl e)
      then show ?thesis
        using False by (simp add: s get_def Let_def port_step_def)
    next
      case (Inr data)
      obtain rc wc where c:
        "ctl SIM_CTL_GET_PORTINFO (Some data) (w\<lparr>time_calls := Suc (time_calls w)\<rparr>) = (rc, wc)"
        by (metis surj_pair)
      have "w' = wc"
        using g False Inr c by (auto simp: get_def Let_def split: sum.splits)
      then show ?thesis
        using ctl_world [OF c] pk by (auto simp: s g port_step_def)
    qed
  qed
qed

lemma andthen_step:
  assumes "port_step s (snd r)" and "\<And>a s1. port_step s1 (snd (f a s1))"
  shows "port_step s (snd (andthen r f))"
proof -
  obtain x s1 where r: "r = (x, s1)"
    by (cases r)
  show ?thesis
    using assms(1) port_step_trans [OF _ assms(2)]
    by (cases x) (auto simp: andthen_def r)
qed

lemma gids_step: "port_step s (snd (gids L s))"
proof (cases "gids_attr (fst s)")
  case None
  have "port_step s1 (snd (case s1 of (p, w) \<Rightarrow>
      (case bytearray_set (pack_into (node_guid (parent p)) (replicate 8 0)) 7 (port_id p) of
         Inl e \<Rightarrow> (Inl e, p, w)
       | Inr guid \<Rightarrow>
           (let default_gid = mkGID GID_DEFAULT_PREFIX guid;
                g = (if prefix = GID_DEFAULT_PREFIX then [default_gid]
                     else [mkGID prefix guid, default_gid])
            in (Inr g, p\<lparr>gids_attr := Some g\<rparr>, w)))))" for prefix s1
    by (cases s1) (simp add: port_step_def Let_def split: sum.splits)
  then show ?thesis
    using None by (auto simp: gids_def intro!: andthen_step get_step)
next
  case (Some g)
  then show ?thesis
    by (simp add: gids_def)
qed

lemma sa_path_step: "port_step s (snd (sa_path L s))"
proof (cases "cached_sa_path (fst s)")
  case None
  show ?thesis
  proof (cases "find_sa_pkey (fst s)")
    case (Inl e)
    then show ?thesis
      using None by (simp add: sa_path_def)
  next
    case (Inr i)
    have "port_step s1 (snd (case s1 of (p, w) \<Rightarrow>
        let path = (IBPath_new L)\<lparr>end_port := port_id p, DLID := dl, SLID := sl,
                     SL := svl, dqpn := 1, sqpn := 1, qkey := IB_DEFAULT_QP1_QKEY,
                     path_pkey_index := i, packet_life_time := subnet_timeout p\<rparr>
        in (Inr path, p\<lparr>cached_sa_path := Some path\<rparr>, w)))" for dl sl svl s1
      by (cases s1) (simp add: port_step_def Let_def)
    then show ?thesis
      using None Inr
      by (auto simp: sa_path_def sm_lid_def lid_def sm_sl_def intro!: andthen_step get_step)
  qed
next
  case (Some path)
  then show ?thesis
    by (simp add: sa_path_def)
qed

lemma call_step: "port_step s (call L c s)"
proof (cases c)
  case Rate
  then show ?thesis
    by (auto simp: call_def rate_def intro!: andthen_step get_step)
next
  case PortGuid
  have "port_step s1 (snd (case first g of Inl e \<Rightarrow> (Inl e, s1)
      | Inr g0 \<Rightarrow> (Inr (conv_gid2guid g0), s1)))" for g s1
    by (simp split: sum.splits)
  with PortGuid show ?thesis
    by (auto simp: call_def port_guid_def intro!: andthen_step gids_step)
next
  case DefaultGid
  then show ?thesis
    by (auto simp: call_def default_gid_def intro!: andthen_step gids_step)
qed (simp_all add: call_def lid_def lmc_def state_def phys_state_def cap_mask_def sm_lid_def
      sm_sl_def get_step gids_step sa_path_step)

lemma calls_step: "port_step s (calls L cs s)"
proof (induction cs arbitrary: s)
  case Nil
  then show ?case by (simp add: calls_def)
next
  case (Cons c cs)
  have "port_step (call L c s) (calls L cs (call L c s))"
    by (rule Cons.IH)
  then show ?case
    using port_step_trans [OF call_step] by (simp add: calls_def)
qed


text \<open>
  C9: a port as \<^verbatim>\<open>SimEndPort.__init__\<close> builds it, after any sequence of calls of its methods
  and properties, in any world. Its partition keys are still the one-element tuple
  \<open>(0xFFFF,)\<close>; \<^verbatim>\<open>pkey_index\<close> of the full-membership default key is 0; \<^verbatim>\<open>sa_path\<close> does not
  raise the error for a missing partition key, in whatever world it is called next; and
  every envelope that the calls sent on the control socket has the opcode
  \<^verbatim>\<open>SIM_CTL_GET_PORTINFO\<close>, so none of them is a \<^verbatim>\<open>SIM_CTL_GET_PKEYS\<close> call.
\<close>

theorem pkeys_never_fetched:
  assumes "s = calls L cs (SimEndPort_init L dev i, w)"
  shows "pkeys (fst s) = [0xFFFF]
       \<and> pkey_index (fst s) PKEY_DEFAULT = Inr 0
       \<and> (\<forall>w2. fst (sa_path L (fst s, w2))
              \<noteq> Inl (RDMAError ''Could not find the SA default PKey''))
       \<and> take (length (ctl_sent w)) (ctl_sent (snd s)) = ctl_sent w
       \<and> (\<forall>m \<in> set (drop (length (ctl_sent w)) (ctl_sent (snd s))).
             opcode (host_order w) m = SIM_CTL_GET_PORTINFO
           \<and> opcode (host_order w) m \<noteq> SIM_CTL_GET_PKEYS)"
proof -
  have st: "port_step (SimEndPort_init L dev i, w) s"
    unfolding assms by (rule calls_step)
  then have pk: "pkeys (fst s) = [0xFFFF]"
    by (simp add: port_step_def SimEndPort_init_def)
  then have idx: "pkey_index (fst s) PKEY_DEFAULT = Inr 0"
    by (simp add: pkey_index_def PKEY_DEFAULT_def)
  have f: "find_sa_pkey (fst s) = Inr 0"
    by (simp add: find_sa_pkey_eq pk PKEY_DEFAULT_def)
  have sa: "fst (sa_path L (fst s, w2)) \<noteq> Inl (RDMAError ''Could not find the SA default PKey'')"
    for w2
  proof (cases "cached_sa_path (fst s)")
    case None
    obtain r p' w' where h: "sa_path L (fst s, w2) = (r, p', w')"
      by (metis prod_cases3)
    show ?thesis
      using sa_path_key [OF None f h] by (auto simp: h)
  next
    case (Some path)
    then show ?thesis
      by (simp add: sa_path_memo)
  qed
  have "SIM_CTL_GET_PORTINFO \<noteq> SIM_CTL_GET_PKEYS"
    by (simp add: SIM_CTL_GET_PORTINFO_def SIM_CTL_GET_PKEYS_def)
  then show ?thesis
    using st pk idx sa by (simp add: port_step_def)
qed

theorem pkeys_never_fetched_witness:
  "pkeys (fst (calls ex_lib [Lid, PkeyIndex 0xFFFF, SaPath] (SimEndPort_init ex_lib ex_dev 1, ex_world)))
     = [0xFFFF]
   \<and> ctl_sent (snd (calls ex_lib [Lid] (SimEndPort_init ex_lib ex_dev 1, ex_world)))
       = [get_portinfo_msg ex_world ex_port]
   \<and> opcode LittleEndian (get_portinfo_msg ex_world ex_port) = SIM_CTL_GET_PORTINFO"
proof -
  have g: "get ex_lib LID (ex_port, ex_world) =
     (Inr (SMPPortInfo_unpack_from ex_lib (drop 16 (take 80 (replicate 80 3))) LID),
      ex_port\<lparr>port_info := SMPPortInfo_unpack_from ex_lib (drop 16 (take 80 (replicate 80 3))),
        port_info_age := time_time ex_world (time_calls ex_world)\<rparr>,
      ex_world\<lparr>time_calls := Suc (time_calls ex_world),
        ctl_sent := ctl_sent ex_world @ [get_portinfo_msg ex_world ex_port],
        ctl_recvs := Suc (ctl_recvs ex_world)\<rparr>)"
    by (rule get_refresh)
      (simp_all add: ex_port_def SimEndPort_init_def ex_world_def in_range_def)
  have c: "ctl_sent (snd (calls ex_lib [Lid] (SimEndPort_init ex_lib ex_dev 1, ex_world)))
      = [get_portinfo_msg ex_world ex_port]"
    using g by (simp add: calls_def call_def lid_def ex_port_def [symmetric] ex_world_def)
  have e: "ctl_sent ex_world = []" "host_order ex_world = LittleEndian"
    by (simp_all add: ex_world_def)
  show ?thesis
    using pkeys_never_fetched [OF refl, of ex_lib "[Lid, PkeyIndex 0xFFFF, SaPath]" ex_dev 1 ex_world]
      pkeys_never_fetched [OF refl, of ex_lib "[Lid]" ex_dev 1 ex_world] c
    by (simp add: e)
qed

section \<open>The datagram transactor: the retry loop\<close>

lemma sendto_ok:
  "struct_request_pack (DLID path) (SLID path) (dqpn path) (sqpn path) 0 (int (length buf)) buf
     = Inr req \<Longrightarrow>
   sendto buf path (u, w) = (Inr (), u, w\<lparr>pkt_sent := pkt_sent w @ [req]\<rparr>)"
  by (simp add: sendto_def)

lemma recvfrom_quiet:
  assumes "quiet w"
  shows "\<exists>w1. recvfrom L e (u, w) = (Inr None, u, w1) \<and> quiet w1
           \<and> pkt_sent w1 = pkt_sent w \<and> clock_calls w1 = Suc (clock_calls w)
           \<and> clock_monotonic w1 = clock_monotonic w \<and> trace_log w1 = trace_log w"
proof -
  have "pkt_inbox w (pkt_polls w) = None"
    using assms by (simp add: quiet_def)
  then show ?thesis
    using assms by (auto simp: recvfrom_def Let_def quiet_def)
qed

lemma step_nodata:
  assumes "struct_request_pack (DLID path) (SLID path) (dqpn path) (sqpn path) 0
             (int (length buf)) buf = Inr req"
    and "recvfrom L e (u, w) = (Inr None, u1, w1)"
  shows "execute_step L buf path rm e k (u, w) =
     (if k = 0 then Return (Inr None) (u1, w1)
      else Continue (mad_timeout path + clock_monotonic w1 (clock_calls w1)) (k - 1)
             (u1, w1\<lparr>pkt_sent := pkt_sent w1 @ [req], clock_calls := Suc (clock_calls w1)\<rparr>))"
  using assms by (simp add: execute_step_def sendto_ok)

lemma loop_quiet:
  assumes "struct_request_pack (DLID path) (SLID path) (dqpn path) (sqpn path) 0
             (int (length buf)) buf = Inr req"
    and "quiet w"
  shows "\<exists>w'. execute_loop L buf path rm e (int k) (u, w) = Some (Inr None, u, w')
           \<and> pkt_sent w' = pkt_sent w @ replicate k req
           \<and> clock_calls w' = clock_calls w + 2 * k + 1
           \<and> trace_log w' = trace_log w"
  using assms(2)
proof (induction k arbitrary: e w)
  case 0
  obtain w1 where r: "recvfrom L e (u, w) = (Inr None, u, w1)" "pkt_sent w1 = pkt_sent w"
    "clock_calls w1 = Suc (clock_calls w)" "trace_log w1 = trace_log w"
    using recvfrom_quiet [OF 0] by blast
  show ?case
    by (subst execute_loop.simps) (simp add: step_nodata [OF assms(1) r(1)] r)
next
  case (Suc k)
  obtain w1 where r: "recvfrom L e (u, w) = (Inr None, u, w1)" "pkt_sent w1 = pkt_sent w"
    "clock_calls w1 = Suc (clock_calls w)" "trace_log w1 = trace_log w" "quiet w1"
    using recvfrom_quiet [OF Suc.prems] by blast
  let ?w2 = "w1\<lparr>pkt_sent := pkt_sent w1 @ [req], clock_calls := Suc (clock_calls w1)\<rparr>"
  let ?e2 = "mad_timeout path + clock_monotonic w1 (clock_calls w1)"
  have "quiet ?w2"
    using r(5) by (simp add: quiet_def)
  from Suc.IH [OF this, of ?e2] obtain w' where
    ih: "execute_loop L buf path rm ?e2 (int k) (u, ?w2) = Some (Inr None, u, w')"
      "pkt_sent w' = pkt_sent ?w2 @ replicate k req"
      "clock_calls w' = clock_calls ?w2 + 2 * k + 1" "trace_log w' = trace_log ?w2"
    by blast
  have "execute_loop L buf path rm e (int (Suc k)) (u, w) = Some (Inr None, u, w')"
    by (subst execute_loop.simps) (simp add: step_nodata [OF assms(1) r(1)] ih(1))
  then show ?case
    using ih(2-4) r(2-4) by (simp add: replicate_append_same)
qed

text \<open>
  C1: \<^verbatim>\<open>_execute\<close> with \<^verbatim>\<open>sendOnly=False\<close>, a retry count \<open>r \<ge> 0\<close>, a buffer and a path that
  \<^verbatim>\<open>sendto\<close> can encode (to the datagram \<open>req\<close>), on a data socket where no poll ever reports
  readable data. The call returns, with "no reply" (\<open>None\<close>); it has sent \<open>req\<close> exactly
  \<open>r + 1\<close> times and nothing else, read the clock \<open>2 * r + 2\<close> times and never called the
  trace hook. And in every pass of the loop in which \<^verbatim>\<open>recvfrom\<close> returns "no data" while
  the budget \<open>k\<close> is not 0, the buffer is sent once more and the loop goes on with the budget
  \<open>k - 1\<close> and the deadline \<open>mad_timeout\<close> plus the reading of the clock taken after the
  resend (the reading after the one \<^verbatim>\<open>recvfrom\<close> took).
\<close>

theorem execute_no_reply:
  assumes "0 \<le> retries path"
    and "struct_request_pack (DLID path) (SLID path) (dqpn path) (sqpn path) 0
           (int (length buf)) buf = Inr req"
    and "\<forall>n\<ge>pkt_polls w. pkt_inbox w n = None"
  shows "(\<exists>w'. execute L buf path False (u, w) = Some (Inr None, u, w')
            \<and> pkt_sent w' = pkt_sent w @ replicate (nat (retries path) + 1) req
            \<and> clock_calls w' = clock_calls w + 2 * nat (retries path) + 2
            \<and> trace_log w' = trace_log w)
       \<and> (\<forall>rm e k u0 w0. k \<noteq> 0 \<and> fst (recvfrom L e (u0, w0)) = Inr None \<longrightarrow>
             (\<exists>w1. execute_step L buf path rm e k (u0, w0)
                     = Continue (mad_timeout path + clock_monotonic w0 (Suc (clock_calls w0)))
                         (k - 1) (u0, w1)
                  \<and> pkt_sent w1 = pkt_sent w0 @ [req]
                  \<and> clock_calls w1 = clock_calls w0 + 2))"
proof -
  let ?w0 = "w\<lparr>pkt_sent := pkt_sent w @ [req], clock_calls := Suc (clock_calls w)\<rparr>"
  have "quiet ?w0"
    using assms(3) by (simp add: quiet_def)
  from loop_quiet [OF assms(2) this, of L "get_reply_match_key L buf"
      "mad_timeout path + clock_monotonic w (clock_calls w)" "nat (retries path)" u]
  obtain w' where
    l: "execute_loop L buf path (get_reply_match_key L buf)
          (mad_timeout path + clock_monotonic w (clock_calls w)) (retries path) (u, ?w0)
        = Some (Inr None, u, w')"
      "pkt_sent w' = pkt_sent ?w0 @ replicate (nat (retries path)) req"
      "clock_calls w' = clock_calls ?w0 + 2 * nat (retries path) + 1"
      "trace_log w' = trace_log ?w0"
    using assms(1) by auto
  have "execute L buf path False (u, w) = Some (Inr None, u, w')"
    using l(1) by (simp add: execute_def sendto_ok [OF assms(2)])
  then have 1: "\<exists>w'. execute L buf path False (u, w) = Some (Inr None, u, w')
            \<and> pkt_sent w' = pkt_sent w @ replicate (nat (retries path) + 1) req
            \<and> clock_calls w' = clock_calls w + 2 * nat (retries path) + 2
            \<and> trace_log w' = trace_log w"
    using l(2-4) by (simp add: replicate_append_same)
  have 2: "\<exists>w1. execute_step L buf path rm e k (u0, w0)
                     = Continue (mad_timeout path + clock_monotonic w0 (Suc (clock_calls w0)))
                         (k - 1) (u0, w1)
                  \<and> pkt_sent w1 = pkt_sent w0 @ [req]
                  \<and> clock_calls w1 = clock_calls w0 + 2"
    if k: "k \<noteq> 0" and n: "fst (recvfrom L e (u0, w0)) = Inr None" for rm e k u0 w0
  proof -
    obtain u1 w1 where r: "recvfrom L e (u0, w0) = (Inr None, u1, w1)"
      using n by (metis fst_conv prod_cases3)
    have "u1 = u0 \<and> pkt_sent w1 = pkt_sent w0 \<and> clock_calls w1 = Suc (clock_calls w0)
        \<and> clock_monotonic w1 = clock_monotonic w0"
      using r by (auto simp: recvfrom_def Let_def split: if_splits option.splits sum.splits)
    then show ?thesis
      using k by (simp add: step_nodata [OF assms(2) r])
  qed
  show ?thesis
    using 1 2 by blast
qed


theorem execute_no_reply_witness:
  "map_option fst (execute ex_lib [7, 8, 9] ex_path False (ex_umad, ex_world)) = Some (Inr None)
   \<and> map_option (length \<circ> pkt_sent \<circ> snd \<circ> snd)
         (execute ex_lib [7, 8, 9] ex_path False (ex_umad, ex_world)) = Some 3
   \<and> (case execute_step ex_lib [7, 8, 9] ex_path [] 1 2 (ex_umad, ex_world) of
         Return r s \<Rightarrow> False
       | Continue e k s \<Rightarrow> e = 11 / 10 \<and> k = 1)"
proof -
  have p: "struct_request_pack (DLID ex_path) (SLID ex_path) (dqpn ex_path) (sqpn ex_path) 0
      (int (length [7, 8, 9 :: byte])) [7, 8, 9]
      = Inr (projr (struct_request_pack 1 2 1 1 0 3 [7, 8, 9]))"
    by (simp add: ex_path_def ex_new_path_def struct_request_pack_def in_range_def)
  have r: "0 \<le> retries ex_path" "nat (retries ex_path) = 2" "mad_timeout ex_path = 1"
    by (simp_all add: ex_path_def ex_new_path_def)
  have q: "\<forall>n\<ge>pkt_polls ex_world. pkt_inbox ex_world n = None"
    by (simp add: ex_world_def)
  note t = execute_no_reply [OF r(1) p q, of ex_lib ex_umad]
  have n: "fst (recvfrom ex_lib 1 (ex_umad, ex_world)) = Inr None"
    by (simp add: recvfrom_def ex_world_def Let_def)
  have c: "clock_monotonic ex_world (Suc (clock_calls ex_world)) = 1 / 10"
    by (simp add: ex_world_def)
  obtain w1 where "execute_step ex_lib [7, 8, 9] ex_path [] 1 2 (ex_umad, ex_world)
      = Continue (11 / 10) 1 (ex_umad, w1)"
    using t [THEN conjunct2, rule_format, where k = 2 and e = 1 and rm = "[]"
          and ?u0.0 = ex_umad and ?w0.0 = ex_world] n
    by (auto simp: r c)
  moreover obtain w' where "execute ex_lib [7, 8, 9] ex_path False (ex_umad, ex_world)
      = Some (Inr None, ex_umad, w')" "length (pkt_sent w') = 3"
    using t [THEN conjunct1] by (auto simp: r ex_world_def)
  ultimately show ?thesis
    by simp
qed

lemma recvfrom_data:
  assumes "0 < e - clock_monotonic w (clock_calls w)" and "pkt_inbox w (pkt_polls w) = Some d"
    and "struct_request_unpack (take 512 d) = Inr (dl, sl, dq, sq, st, n, pkt)"
  shows "recvfrom L e (u, w) =
     (Inr (Some (pkt, (IBPath_new L)\<lparr>end_port := umad_end_port u, DLID := dl, SLID := sl,
                        DQPN := Some dq, SQPN := Some sq\<rparr>)),
      u, w\<lparr>clock_calls := Suc (clock_calls w), pkt_polls := Suc (pkt_polls w)\<rparr>)"
  using assms by (simp add: recvfrom_def Let_def)

lemma step_data:
  assumes "recvfrom L e (u, w) = (Inr (Some ret), u1, w1)"
  shows "execute_step L buf path rm e k (u, w) =
     (if rm = get_match_key L (fst ret) then Return (Inr (Some ret)) (u1, w1)
      else Continue e k
             (u1, if trace_func u1
                  then w1\<lparr>trace_log := trace_log w1
                         @ [\<lparr>kind = TRACE_UNEXPECTED, trace_path = path, trace_ret = ret\<rparr>]\<rparr>
                  else w1))"
  using assms by (simp add: execute_step_def)

text \<open>
  C5: \<^verbatim>\<open>_execute\<close> with \<^verbatim>\<open>sendOnly=False\<close> when the first poll delivers a datagram whose match
  key differs from the expected one and the second poll a datagram whose match key equals
  it, both \<^verbatim>\<open>recvfrom\<close> calls being made before the deadline \<open>expire\<close> computed after the
  send. The call returns the payload and the path of the second datagram. The world it
  leaves is the one it started in but for: the one datagram of the initial send (no
  resend), three clock readings (the deadline and the two of \<^verbatim>\<open>recvfrom\<close>: the deadline is
  not computed again), two polls, and, if a trace hook is installed, exactly one call of
  it, with \<^verbatim>\<open>TRACE_UNEXPECTED\<close>, the path of the request and the mismatched reply. And in every
  pass of the loop in which \<^verbatim>\<open>recvfrom\<close> returns a datagram with another match key, the loop
  goes on with the same deadline and the same retry budget, and nothing is sent.
\<close>

theorem execute_unexpected_then_match:
  assumes "struct_request_pack (DLID path) (SLID path) (dqpn path) (sqpn path) 0
             (int (length buf)) buf = Inr req"
    and "expire = mad_timeout path + clock_monotonic w (clock_calls w)"
    and "clock_monotonic w (clock_calls w + 1) < expire"
    and "clock_monotonic w (clock_calls w + 2) < expire"
    and "pkt_inbox w (pkt_polls w) = Some d1"
    and "pkt_inbox w (pkt_polls w + 1) = Some d2"
    and "struct_request_unpack (take 512 d1) = Inr (dl1, sl1, dq1, sq1, st1, n1, pkt1)"
    and "struct_request_unpack (take 512 d2) = Inr (dl2, sl2, dq2, sq2, st2, n2, pkt2)"
    and "get_match_key L pkt1 \<noteq> get_reply_match_key L buf"
    and "get_match_key L pkt2 = get_reply_match_key L buf"
    and "path1 = (IBPath_new L)\<lparr>end_port := umad_end_port u, DLID := dl1, SLID := sl1,
                   DQPN := Some dq1, SQPN := Some sq1\<rparr>"
    and "path2 = (IBPath_new L)\<lparr>end_port := umad_end_port u, DLID := dl2, SLID := sl2,
                   DQPN := Some dq2, SQPN := Some sq2\<rparr>"
  shows "execute L buf path False (u, w) =
           Some (Inr (Some (pkt2, path2)), u,
                 w\<lparr>clock_calls := clock_calls w + 3, pkt_polls := pkt_polls w + 2,
                   pkt_sent := pkt_sent w @ [req],
                   trace_log := trace_log w @
                     (if trace_func u
                      then [\<lparr>kind = TRACE_UNEXPECTED, trace_path = path,
                             trace_ret = (pkt1, path1)\<rparr>]
                      else [])\<rparr>)
       \<and> (\<forall>e k u0 w0 ret s1. recvfrom L e (u0, w0) = (Inr (Some ret), s1)
              \<and> get_match_key L (fst ret) \<noteq> get_reply_match_key L buf \<longrightarrow>
              (\<exists>s2. execute_step L buf path (get_reply_match_key L buf) e k (u0, w0)
                      = Continue e k s2 \<and> pkt_sent (snd s2) = pkt_sent (snd s1)))"
proof -
  let ?rm = "get_reply_match_key L buf"
  let ?w0 = "w\<lparr>pkt_sent := pkt_sent w @ [req], clock_calls := Suc (clock_calls w)\<rparr>"
  let ?w1 = "?w0\<lparr>clock_calls := Suc (clock_calls ?w0), pkt_polls := Suc (pkt_polls ?w0)\<rparr>"
  let ?w2 = "if trace_func u
             then ?w1\<lparr>trace_log := trace_log ?w1
                    @ [\<lparr>kind = TRACE_UNEXPECTED, trace_path = path, trace_ret = (pkt1, path1)\<rparr>]\<rparr>
             else ?w1"
  let ?w3 = "?w2\<lparr>clock_calls := Suc (clock_calls ?w2), pkt_polls := Suc (pkt_polls ?w2)\<rparr>"
  have r1: "recvfrom L expire (u, ?w0) = (Inr (Some (pkt1, path1)), u, ?w1)"
    unfolding assms(11)
    by (rule recvfrom_data [where d = d1 and st = st1 and n = n1]) (use assms in simp_all)
  have r2: "recvfrom L expire (u, ?w2) = (Inr (Some (pkt2, path2)), u, ?w3)"
    unfolding assms(12)
    by (rule recvfrom_data [where d = d2 and st = st2 and n = n2]) (use assms in simp_all)
  have s1: "execute_step L buf path ?rm expire (retries path) (u, ?w0)
      = Continue expire (retries path) (u, ?w2)"
    using assms(9) by (simp add: step_data [OF r1])
  have s2: "execute_step L buf path ?rm expire (retries path) (u, ?w2)
      = Return (Inr (Some (pkt2, path2))) (u, ?w3)"
    using assms(10) by (simp add: step_data [OF r2])
  have "execute_loop L buf path ?rm expire (retries path) (u, ?w0)
      = Some (Inr (Some (pkt2, path2)), u, ?w3)"
    by (subst execute_loop.simps, simp only: s1 loop.case)
       (subst execute_loop.simps, simp only: s2 loop.case)
  then have "execute L buf path False (u, w) = Some (Inr (Some (pkt2, path2)), u, ?w3)"
    by (simp add: execute_def sendto_ok [OF assms(1)] assms(2))
  moreover have "?w3 = w\<lparr>clock_calls := clock_calls w + 3, pkt_polls := pkt_polls w + 2,
                   pkt_sent := pkt_sent w @ [req],
                   trace_log := trace_log w @
                     (if trace_func u
                      then [\<lparr>kind = TRACE_UNEXPECTED, trace_path = path,
                             trace_ret = (pkt1, path1)\<rparr>]
                      else [])\<rparr>"
    by simp
  moreover have "\<exists>s2. execute_step L buf path ?rm e k (u0, w0) = Continue e k s2
      \<and> pkt_sent (snd s2) = pkt_sent (snd s1)"
    if a: "recvfrom L e (u0, w0) = (Inr (Some ret), s1)"
      and b: "get_match_key L (fst ret) \<noteq> ?rm" for e k u0 w0 ret s1
  proof -
    obtain u1 w1 where s: "s1 = (u1, w1)"
      by (cases s1)
    show ?thesis
      using b by (auto simp: step_data [OF a [unfolded s]] s)
  qed
  ultimately show ?thesis
    by (simp only:) blast
qed


theorem execute_unexpected_then_match_witness:
  "map_option fst (execute ex_lib [7, 8, 9] ex_path False (ex_umad, ex_world_two))
     = Some (Inr (Some (pack_s 256 [7, 8, 9],
         ex_new_path\<lparr>end_port := 1, DLID := 1, SLID := 2, DQPN := Some 3, SQPN := Some 4\<rparr>)))
   \<and> map_option (map kind \<circ> trace_log \<circ> snd \<circ> snd)
         (execute ex_lib [7, 8, 9] ex_path False (ex_umad, ex_world_two))
       = Some [TRACE_UNEXPECTED]
   \<and> map_option (length \<circ> pkt_sent \<circ> snd \<circ> snd)
         (execute ex_lib [7, 8, 9] ex_path False (ex_umad, ex_world_two)) = Some 1"
proof -
  have p: "struct_request_pack (DLID ex_path) (SLID ex_path) (dqpn ex_path) (sqpn ex_path) 0
      (int (length [7, 8, 9 :: byte])) [7, 8, 9]
      = Inr (projr (struct_request_pack 1 2 1 1 0 3 [7, 8, 9]))"
    by (simp add: ex_path_def ex_new_path_def struct_request_pack_def in_range_def)
  have a: "struct_request_pack 1 2 3 4 0 3 [6, 8, 9] = Inr ex_other"
    by (simp add: ex_other_def struct_request_pack_def in_range_def)
  have b: "struct_request_pack 1 2 3 4 0 3 [7, 8, 9] = Inr (ex_datagram 0)"
    by (rule ex_datagram) (simp add: in_range_def)
  have u1: "struct_request_unpack (take 512 ex_other) = Inr (1, 2, 3, 4, 0, 3, pack_s 256 [6, 8, 9])"
    using struct_request_unpack_pack [OF a] length_struct_request_pack [OF a] by simp
  have u2: "struct_request_unpack (take 512 (ex_datagram 0))
      = Inr (1, 2, 3, 4, 0, 3, pack_s 256 [7, 8, 9])"
    using struct_request_unpack_pack [OF b] length_struct_request_pack [OF b] by simp
  have k1: "get_match_key ex_lib (pack_s 256 [6, 8, 9]) \<noteq> get_reply_match_key ex_lib [7, 8, 9]"
    by (simp add: ex_lib_def pack_s_def)
  have k2: "get_match_key ex_lib (pack_s 256 [7, 8, 9]) = get_reply_match_key ex_lib [7, 8, 9]"
    by (simp add: ex_lib_def pack_s_def)
  have c1: "clock_monotonic ex_world_two (clock_calls ex_world_two + 1)
      < mad_timeout ex_path + clock_monotonic ex_world_two (clock_calls ex_world_two)"
    and c2: "clock_monotonic ex_world_two (clock_calls ex_world_two + 2)
      < mad_timeout ex_path + clock_monotonic ex_world_two (clock_calls ex_world_two)"
    by (simp_all add: ex_world_two_def ex_world_def ex_path_def ex_new_path_def)
  have i1: "pkt_inbox ex_world_two (pkt_polls ex_world_two) = Some ex_other"
    and i2: "pkt_inbox ex_world_two (pkt_polls ex_world_two + 1) = Some (ex_datagram 0)"
    by (simp_all add: ex_world_two_def ex_world_def)
  note t = execute_unexpected_then_match [OF p refl c1 c2 i1 i2 u1 u2 k1 k2 refl refl,
      THEN conjunct1, of ex_umad]
  have "trace_func ex_umad" "umad_end_port ex_umad = 1" "IBPath_new ex_lib = ex_new_path"
    "pkt_sent ex_world_two = []" "trace_log ex_world_two = []"
    by (simp_all add: ex_umad_def ex_lib_def ex_world_two_def ex_world_def)
  then show ?thesis
    by (simp add: t)
qed

text \<open>
  The retry count has to be non-negative: with a negative count the test \<^verbatim>\<open>retries == 0\<close>
  never holds, and on a data socket without replies the loop resends for ever.
\<close>

lemma loop_returns_only_if:
  assumes "execute_loop L buf path rm e k s = Some y"
  shows "struct_request_pack (DLID path) (SLID path) (dqpn path) (sqpn path) 0
           (int (length buf)) buf = Inr req \<longrightarrow> quiet (snd s) \<longrightarrow> 0 \<le> k"
proof (rule execute_loop.raw_induct [where P = "\<lambda>L buf path rm e k s y.
    struct_request_pack (DLID path) (SLID path) (dqpn path) (sqpn path) 0
      (int (length buf)) buf = Inr req \<longrightarrow> quiet (snd s) \<longrightarrow> 0 \<le> k", OF _ assms], goal_cases)
  case (1 loop L buf path rm e k s y)
  show ?case
  proof (intro impI, rule ccontr)
    assume p: "struct_request_pack (DLID path) (SLID path) (dqpn path) (sqpn path) 0
           (int (length buf)) buf = Inr req"
      and q: "quiet (snd s)" and k: "\<not> 0 \<le> k"
    obtain u w where s: "s = (u, w)"
      by (cases s)
    obtain w1 where r: "recvfrom L e (u, w) = (Inr None, u, w1)" and q1: "quiet w1"
      using recvfrom_quiet [of w L e u] q by (auto simp: s)
    let ?w2 = "w1\<lparr>pkt_sent := pkt_sent w1 @ [req], clock_calls := Suc (clock_calls w1)\<rparr>"
    let ?e2 = "mad_timeout path + clock_monotonic w1 (clock_calls w1)"
    have "loop L buf path rm ?e2 (k - 1) (u, ?w2) = Some y"
      using 1(2) k by (simp add: s step_nodata [OF p r])
    from 1(1) [OF this] p q1 k show False
      by (auto simp: quiet_def)
  qed
qed

lemma execute_negative_retries_diverges:
  assumes "struct_request_pack (DLID path) (SLID path) (dqpn path) (sqpn path) 0
             (int (length buf)) buf = Inr req"
    and "\<forall>n\<ge>pkt_polls w. pkt_inbox w n = None" and "retries path < 0"
  shows "execute L buf path False (u, w) = None"
proof (rule ccontr)
  assume "execute L buf path False (u, w) \<noteq> None"
  then obtain y where "execute_loop L buf path (get_reply_match_key L buf)
      (mad_timeout path + clock_monotonic w (clock_calls w)) (retries path)
      (u, w\<lparr>pkt_sent := pkt_sent w @ [req], clock_calls := Suc (clock_calls w)\<rparr>) = Some y"
    by (auto simp: execute_def sendto_ok [OF assms(1)])
  from loop_returns_only_if [OF this, of req] assms show False
    by (simp add: quiet_def)
qed

end
